theory Spec2Isabelle
  imports Main "HOL-Library.Word"
begin

unbundle bit_operations_syntax

chapter \<open>A shallow embedding of the SPECTRE EVM core\<close>

text \<open>
  The development follows the Python sources under \<^verbatim>\<open>src/ethereum\<close>:
  \<^verbatim>\<open>common/types.py\<close>, \<^verbatim>\<open>frontier/vm/{stack,memory,gas,interpreter}.py\<close>,
  \<^verbatim>\<open>{homestead,shanghai}/vm/interpreter.py\<close> and the three \<^verbatim>\<open>fork.py\<close> drivers.

  Conventions.
  \<^item> Python \<^verbatim>\<open>int\<close> is \<^typ>\<open>int\<close>; \<^verbatim>\<open>bytes\<close> is a list of 8-bit words.
  \<^item> A field \<^verbatim>\<open>f\<close> of a class is a record field with a short class prefix
    (\<^verbatim>\<open>Account.nonce\<close> is \<open>acc_nonce\<close>, \<^verbatim>\<open>Message.gas\<close> is \<open>msg_gas\<close>, ...), because
    several classes share field names.
  \<^item> Mutation of the \<^verbatim>\<open>State\<close> object and of the interpreter attribute
    \<^verbatim>\<open>self.return_data\<close> is explicit state passing through the record \<open>world\<close>.
  \<^item> A raised exception is a value \<open>Inl e\<close>; the exceptions that
    \<^verbatim>\<open>Interpreter.execute\<close> catches and the ones it lets escape are kept apart.
  \<^item> The \<^verbatim>\<open>error\<close> string of an \<^verbatim>\<open>ExecutionResult\<close> is abstracted to a tag that
    names the message (the formatted numbers inside the message are dropped).
  \<^item> The buffer of \<^verbatim>\<open>Memory\<close> is an unbounded list: Python's \<^verbatim>\<open>MemoryError\<close> is
    not modelled.
\<close>

section \<open>Bytes and integers\<close>

type_synonym byte = "8 word"
type_synonym bytes = "byte list"

abbreviation len :: "'a list \<Rightarrow> int" where
  "len xs \<equiv> int (length xs)"

text \<open>\<^verbatim>\<open>xs[a:b]\<close> for indices that are not negative, which is all the sources use.\<close>

definition slice :: "'a list \<Rightarrow> int \<Rightarrow> int \<Rightarrow> 'a list" where
  "slice xs a b = take (nat b - nat a) (drop (nat a) xs)"

text \<open>\<^verbatim>\<open>int.from_bytes(bs, "big")\<close>.\<close>

definition from_bytes :: "bytes \<Rightarrow> int" where
  "from_bytes bs = foldl (\<lambda>acc b. acc * 256 + uint b) 0 bs"

text \<open>The big-endian digits of \<^verbatim>\<open>v.to_bytes(n, "big")\<close>, for a value that fits.\<close>

primrec be_bytes :: "nat \<Rightarrow> int \<Rightarrow> bytes" where
  "be_bytes 0 v = []"
| "be_bytes (Suc n) v = be_bytes n (v div 256) @ [word_of_int v]"

datatype evm_error =
    StackOverflowError
  | StackUnderflowError
  | OutOfGasError
  | InvalidOpcodeError
  | InvalidJumpError
  | WriteProtectionError
  | ReturnDataOutOfBounds

datatype py_error =
    OverflowError
  | UnboundLocalError
  | ValidationError
  | ValueError
  | RecursionError

text \<open>
  \<open>Caught e\<close>: one of the exception classes handled by the \<^verbatim>\<open>except\<close> clauses of
  \<^verbatim>\<open>Interpreter.execute\<close> (\<open>ReturnDataOutOfBounds\<close> is the plain \<^verbatim>\<open>EVMError\<close> raised by
  RETURNDATACOPY). \<open>Uncaught e\<close>: a Python exception that no handler of the sources
  catches, so it leaves \<^verbatim>\<open>execute\<close> and \<^verbatim>\<open>state_transition\<close>.
\<close>

datatype exn = Caught evm_error | Uncaught py_error

text \<open>\<^verbatim>\<open>v.to_bytes(n, "big")\<close>: raises \<^verbatim>\<open>OverflowError\<close> when \<open>v\<close> does not fit.\<close>

definition to_bytes :: "int \<Rightarrow> nat \<Rightarrow> exn + bytes" where
  "to_bytes v n = (if v < 0 \<or> 256 ^ n \<le> v then Inl (Uncaught OverflowError)
                   else Inr (be_bytes n v))"

text \<open>\<^verbatim>\<open>int.bit_length\<close>.\<close>

fun bit_length_nat :: "nat \<Rightarrow> nat" where
  "bit_length_nat n = (if n = 0 then 0 else Suc (bit_length_nat (n div 2)))"

declare bit_length_nat.simps [simp del]

definition bit_length :: "int \<Rightarrow> int" where
  "bit_length v = int (bit_length_nat (nat \<bar>v\<bar>))"

definition MAX_U256 :: int where
  "MAX_U256 = 2 ^ 256 - 1"

definition ZERO_ADDRESS :: bytes where
  "ZERO_ADDRESS = replicate 20 0"

definition u256 :: "int \<Rightarrow> int" where
  "u256 v = v AND MAX_U256"

definition signed_to_unsigned :: "int \<Rightarrow> int" where
  "signed_to_unsigned v = (if v \<ge> 0 then v else v + 2 ^ 256)"

definition unsigned_to_signed :: "int \<Rightarrow> int" where
  "unsigned_to_signed v = (if v < 2 ^ 255 then v else v - 2 ^ 256)"

section \<open>The hash function of \<^verbatim>\<open>hashlib\<close>\<close>

text \<open>
  The sources hash with \<^verbatim>\<open>hashlib.sha3_256\<close>, the SHA3-256 of FIPS 202: the
  Keccak sponge of rate 136 bytes over the permutation Keccak-f[1600], with the domain
  suffix \<open>0x06\<close>. Keccak-256, the hash of Ethereum, is the same sponge with the suffix
  \<open>0x01\<close>. The state is a list of 25 lanes; lane \<open>(x, y)\<close> is at index \<open>x + 5 * y\<close>.
\<close>

type_synonym lane = "64 word"

definition rotl64 :: "lane \<Rightarrow> nat \<Rightarrow> lane" where
  "rotl64 w n = (push_bit n w) OR (drop_bit (64 - n) w)"

definition keccak_rc :: "lane list" where
  "keccak_rc =
    [0x0000000000000001, 0x0000000000008082, 0x800000000000808A, 0x8000000080008000,
     0x000000000000808B, 0x0000000080000001, 0x8000000080008081, 0x8000000000008009,
     0x000000000000008A, 0x0000000000000088, 0x0000000080008009, 0x000000008000000A,
     0x000000008000808B, 0x800000000000008B, 0x8000000000008089, 0x8000000000008003,
     0x8000000000008002, 0x8000000000000080, 0x000000000000800A, 0x800000008000000A,
     0x8000000080008081, 0x8000000000008080, 0x0000000080000001, 0x8000000080008008]"

definition keccak_rot :: "nat list" where
  "keccak_rot = [0, 1, 62, 28, 27,  36, 44, 6, 55, 20,  3, 10, 43, 25, 39,
                 41, 45, 15, 21, 8,  18, 2, 61, 56, 14]"

definition theta :: "lane list \<Rightarrow> lane list" where
  "theta a =
    (let c = map (\<lambda>x. a ! x XOR a ! (x + 5) XOR a ! (x + 10) XOR a ! (x + 15) XOR a ! (x + 20))
                 [0..<5];
         d = map (\<lambda>x. c ! ((x + 4) mod 5) XOR rotl64 (c ! ((x + 1) mod 5)) 1) [0..<5]
     in map (\<lambda>i. a ! i XOR d ! (i mod 5)) [0..<25])"

definition rho_pi :: "lane list \<Rightarrow> lane list" where
  "rho_pi a =
    map (\<lambda>j. let x' = j mod 5; y' = j div 5; x = (x' + 3 * y') mod 5; y = x'
              in rotl64 (a ! (x + 5 * y)) (keccak_rot ! (x + 5 * y))) [0..<25]"

definition chi :: "lane list \<Rightarrow> lane list" where
  "chi b =
    map (\<lambda>i. let x = i mod 5; y = i div 5
              in b ! i XOR (NOT (b ! ((x + 1) mod 5 + 5 * y)) AND b ! ((x + 2) mod 5 + 5 * y)))
        [0..<25]"

definition iota :: "lane \<Rightarrow> lane list \<Rightarrow> lane list" where
  "iota rc a = (a ! 0 XOR rc) # tl a"

definition keccak_round :: "lane list \<Rightarrow> lane \<Rightarrow> lane list" where
  "keccak_round a rc = iota rc (chi (rho_pi (theta a)))"

definition keccak_f :: "lane list \<Rightarrow> lane list" where
  "keccak_f a = foldl keccak_round a keccak_rc"

text \<open>Lanes are read from and written to the byte stream little-endian.\<close>

fun lane_of_bytes :: "bytes \<Rightarrow> lane" where
  "lane_of_bytes [] = 0"
| "lane_of_bytes (b # bs) = ucast b OR push_bit 8 (lane_of_bytes bs)"

definition bytes_of_lane :: "lane \<Rightarrow> bytes" where
  "bytes_of_lane w = map (\<lambda>i. ucast (drop_bit (8 * i) w)) [0..<8]"

fun chunks :: "nat \<Rightarrow> nat \<Rightarrow> 'a list \<Rightarrow> 'a list list" where
  "chunks 0 k xs = []"
| "chunks (Suc n) k xs = take k xs # chunks n k (drop k xs)"

definition absorb_block :: "lane list \<Rightarrow> bytes \<Rightarrow> lane list" where
  "absorb_block a blk =
     keccak_f (map2 (XOR) a (map lane_of_bytes (chunks 17 8 blk) @ replicate 8 0))"

definition sponge_pad :: "byte \<Rightarrow> bytes \<Rightarrow> bytes" where
  "sponge_pad suffix m =
    (let q = 136 - length m mod 136 in
     if q = 1 then m @ [suffix OR 0x80]
     else m @ [suffix] @ replicate (q - 2) 0 @ [0x80])"

definition sponge256 :: "byte \<Rightarrow> bytes \<Rightarrow> bytes" where
  "sponge256 suffix m =
    (let p = sponge_pad suffix m;
         s = foldl absorb_block (replicate 25 0) (chunks (length p div 136) 136 p)
     in concat (map bytes_of_lane (take 4 s)))"

text \<open>\<^verbatim>\<open>hashlib.sha3_256(data).digest()\<close>.\<close>

definition sha3_256 :: "bytes \<Rightarrow> bytes" where
  "sha3_256 = sponge256 0x06"

text \<open>Keccak-256 with the original (pre-FIPS-202) padding, for comparison.\<close>

definition keccak256 :: "bytes \<Rightarrow> bytes" where
  "keccak256 = sponge256 0x01"

section \<open>Data model (\<^verbatim>\<open>common/types.py\<close>)\<close>

record Account =
  acc_nonce :: int
  acc_balance :: int
  acc_code :: bytes
  acc_storage :: "int \<rightharpoonup> int"

text \<open>\<^verbatim>\<open>Account()\<close>: every field at its default.\<close>

definition Account_default :: Account where
  "Account_default = \<lparr>acc_nonce = 0, acc_balance = 0, acc_code = [], acc_storage = Map.empty\<rparr>"

definition copy_with ::
  "Account \<Rightarrow> int option \<Rightarrow> int option \<Rightarrow> bytes option \<Rightarrow> (int \<rightharpoonup> int) option \<Rightarrow> Account"
where
  "copy_with self nonce balance code storage =
    \<lparr>acc_nonce = (case nonce of Some n \<Rightarrow> n | None \<Rightarrow> acc_nonce self),
     acc_balance = (case balance of Some b \<Rightarrow> b | None \<Rightarrow> acc_balance self),
     acc_code = (case code of Some c \<Rightarrow> c | None \<Rightarrow> acc_code self),
     acc_storage = (case storage of Some s \<Rightarrow> s | None \<Rightarrow> acc_storage self)\<rparr>"

record State =
  accounts :: "bytes \<rightharpoonup> Account"

definition get_account :: "State \<Rightarrow> bytes \<Rightarrow> Account" where
  "get_account st address =
     (case accounts st address of Some a \<Rightarrow> a | None \<Rightarrow> Account_default)"

definition set_account :: "State \<Rightarrow> bytes \<Rightarrow> Account \<Rightarrow> State" where
  "set_account st address account = st\<lparr>accounts := (accounts st)(address \<mapsto> account)\<rparr>"

definition get_balance :: "State \<Rightarrow> bytes \<Rightarrow> int" where
  "get_balance st address = acc_balance (get_account st address)"

definition set_balance :: "State \<Rightarrow> bytes \<Rightarrow> int \<Rightarrow> State" where
  "set_balance st address balance =
     st\<lparr>accounts := (accounts st)
        (address \<mapsto> copy_with (get_account st address) None (Some balance) None None)\<rparr>"

definition get_code :: "State \<Rightarrow> bytes \<Rightarrow> bytes" where
  "get_code st address = acc_code (get_account st address)"

definition set_code :: "State \<Rightarrow> bytes \<Rightarrow> bytes \<Rightarrow> State" where
  "set_code st address code =
     st\<lparr>accounts := (accounts st)
        (address \<mapsto> copy_with (get_account st address) None None (Some code) None)\<rparr>"

definition get_storage :: "State \<Rightarrow> bytes \<Rightarrow> int \<Rightarrow> int" where
  "get_storage st address key =
     (case acc_storage (get_account st address) key of Some v \<Rightarrow> v | None \<Rightarrow> 0)"

definition set_storage :: "State \<Rightarrow> bytes \<Rightarrow> int \<Rightarrow> int \<Rightarrow> State" where
  "set_storage st address key val =
    (let account = get_account st address;
         new_storage = (if val = 0 then (acc_storage account)(key := None)
                        else (acc_storage account)(key \<mapsto> val))
     in st\<lparr>accounts := (accounts st)
          (address \<mapsto> copy_with account None None None (Some new_storage))\<rparr>)"

definition increment_nonce :: "State \<Rightarrow> bytes \<Rightarrow> State" where
  "increment_nonce st address =
    (let account = get_account st address
     in st\<lparr>accounts := (accounts st)
          (address \<mapsto> copy_with account (Some (acc_nonce account + 1)) None None None)\<rparr>)"

text \<open>\<^verbatim>\<open>State.copy\<close> is a deep copy; on values it is the identity.\<close>

definition state_copy :: "State \<Rightarrow> State" where
  "state_copy st = st"

definition account_exists :: "State \<Rightarrow> bytes \<Rightarrow> bool" where
  "account_exists st address =
    (case accounts st address of
       None \<Rightarrow> False
     | Some account \<Rightarrow>
         acc_nonce account \<noteq> 0 \<or> acc_balance account \<noteq> 0 \<or> acc_code account \<noteq> [])"

record Transaction =
  tx_sender :: bytes
  tx_to :: "bytes option"
  tx_value :: int
  tx_data :: bytes
  tx_gas :: int
  tx_gas_price :: int
  tx_nonce :: int

record Environment =
  env_caller :: bytes
  env_origin :: bytes
  env_block_hashes :: "int \<rightharpoonup> bytes"
  env_coinbase :: bytes
  env_number :: int
  env_gas_limit :: int
  env_gas_price :: int
  env_timestamp :: int
  env_difficulty :: int
  env_chain_id :: int
  env_base_fee :: int

record Log =
  log_address :: bytes
  log_topics :: "bytes list"
  log_data :: bytes

record Message =
  msg_caller :: bytes
  msg_target :: bytes
  msg_value :: int
  msg_data :: bytes
  msg_gas :: int
  msg_depth :: int
  msg_code :: bytes
  msg_code_address :: bytes
  msg_is_static :: bool
  msg_is_create :: bool

text \<open>
  The tag that stands for the \<^verbatim>\<open>error\<close> string of a result: \<open>FrameError e\<close> for the
  message of a caught exception \<open>e\<close>, the other tags for the literal messages of
  \<^verbatim>\<open>execute\<close>, \<^verbatim>\<open>validate_transaction\<close> and \<^verbatim>\<open>state_transition\<close>.
\<close>

datatype error_tag =
    FrameError evm_error
  | CallDepthExceeded
  | InvalidNonce
  | IntrinsicGasTooLow
  | InsufficientBalance
  | InitcodeTooLarge
  | OutOfGasForCodeDeployment
  | CodeSizeLimitExceeded

record ExecutionResult =
  res_success :: bool
  res_gas_used :: int
  res_gas_remaining :: int
  res_return_data :: bytes
  res_logs :: "Log list"
  res_error :: "error_tag option"
  res_created_address :: "bytes option"

text \<open>\<^verbatim>\<open>ExecutionResult()\<close>: every field at its default.\<close>

definition ExecutionResult_default :: ExecutionResult where
  "ExecutionResult_default =
    \<lparr>res_success = True, res_gas_used = 0, res_gas_remaining = 0, res_return_data = [],
     res_logs = [], res_error = None, res_created_address = None\<rparr>"

text \<open>
  Pydantic checks the length of the address fields when a \<^verbatim>\<open>Message\<close> is built; a
  wrong length raises \<^verbatim>\<open>ValidationError\<close>.
\<close>

definition Message_valid :: "Message \<Rightarrow> bool" where
  "Message_valid m \<longleftrightarrow>
     length (msg_caller m) = 20 \<and> length (msg_target m) = 20 \<and> length (msg_code_address m) = 20"

subsection \<open>Contract addresses\<close>

definition rlp_encode_bytes :: "bytes \<Rightarrow> bytes" where
  "rlp_encode_bytes d =
    (if length d = 1 \<and> hd d < 0x80 then d
     else if length d < 56 then word_of_int (0x80 + len d) # d
     else let len_bytes = be_bytes (nat ((bit_length (len d) + 7) div 8)) (len d)
          in word_of_int (0xB7 + len len_bytes) # len_bytes @ d)"

text \<open>
  \<^verbatim>\<open>bytes([value])\<close> raises \<^verbatim>\<open>ValueError\<close> for a negative \<open>value\<close>; a value from 128 on
  takes the other branch, where \<^verbatim>\<open>to_bytes\<close> gets exactly the length it needs.
\<close>

definition rlp_encode_int :: "int \<Rightarrow> py_error + bytes" where
  "rlp_encode_int v =
    (if v = 0 then Inr [0x80]
     else if v < 0x80 then (if v < 0 then Inl ValueError else Inr [word_of_int v])
     else Inr (rlp_encode_bytes (be_bytes (nat ((bit_length v + 7) div 8)) v)))"

definition create_address :: "bytes \<Rightarrow> int \<Rightarrow> py_error + bytes" where
  "create_address sender nonce =
    (let sender_encoded = rlp_encode_bytes sender
     in case rlp_encode_int nonce of
          Inl e \<Rightarrow> Inl e
        | Inr nonce_encoded \<Rightarrow>
            let content = sender_encoded @ nonce_encoded;
                rlp = (if length content < 56 then word_of_int (0xC0 + len content) # content
                       else let len_bytes =
                                  be_bytes (nat ((bit_length (len content) + 7) div 8))
                                    (len content)
                            in word_of_int (0xF7 + len len_bytes) # len_bytes @ content)
            in Inr (drop 12 (sha3_256 rlp)))"

definition create2_address :: "bytes \<Rightarrow> bytes \<Rightarrow> bytes \<Rightarrow> bytes" where
  "create2_address sender salt init_code_hash =
     drop 12 (sha3_256 (0xFF # sender @ salt @ init_code_hash))"

section \<open>Stack (\<^verbatim>\<open>frontier/vm/stack.py\<close>)\<close>

text \<open>
  The Python list \<^verbatim>\<open>_data\<close> keeps the top of the stack at its end; here the top is the
  head of the list, so \<^verbatim>\<open>_data[-n]\<close> is element \<open>n - 1\<close>.
\<close>

type_synonym Stack = "int list"

definition MAX_DEPTH :: nat where
  "MAX_DEPTH = 1024"

definition stack_push :: "Stack \<Rightarrow> int \<Rightarrow> exn + Stack" where
  "stack_push st v =
    (if length st \<ge> MAX_DEPTH then Inl (Caught StackOverflowError) else Inr (u256 v # st))"

definition stack_pop :: "Stack \<Rightarrow> exn + int \<times> Stack" where
  "stack_pop st = (case st of [] \<Rightarrow> Inl (Caught StackUnderflowError) | v # rest \<Rightarrow> Inr (v, rest))"

definition stack_peek :: "Stack \<Rightarrow> nat \<Rightarrow> exn + int" where
  "stack_peek st depth =
    (if depth \<ge> length st then Inl (Caught StackUnderflowError) else Inr (st ! depth))"

definition stack_set :: "Stack \<Rightarrow> nat \<Rightarrow> int \<Rightarrow> exn + Stack" where
  "stack_set st depth v =
    (if depth \<ge> length st then Inl (Caught StackUnderflowError) else Inr (st[depth := u256 v]))"

definition stack_dup :: "Stack \<Rightarrow> nat \<Rightarrow> exn + Stack" where
  "stack_dup st n =
    (if n < 1 \<or> n > 16 then Inl (Uncaught ValueError)
     else if n > length st then Inl (Caught StackUnderflowError)
     else if length st \<ge> MAX_DEPTH then Inl (Caught StackOverflowError)
     else Inr (st ! (n - 1) # st))"

definition stack_swap :: "Stack \<Rightarrow> nat \<Rightarrow> exn + Stack" where
  "stack_swap st n =
    (if n < 1 \<or> n > 16 then Inl (Uncaught ValueError)
     else if n + 1 > length st then Inl (Caught StackUnderflowError)
     else Inr (st[0 := st ! n, n := st ! 0]))"

section \<open>Memory (\<^verbatim>\<open>frontier/vm/memory.py\<close>)\<close>

type_synonym Memory = bytes

definition word_size :: "int \<Rightarrow> int" where
  "word_size sz = (sz + 31) div 32"

text \<open>\<^verbatim>\<open>Memory._expand\<close>: the buffer after the call.\<close>

definition mem_expand :: "Memory \<Rightarrow> int \<Rightarrow> int \<Rightarrow> Memory" where
  "mem_expand mem offset sz =
    (if sz = 0 then mem
     else let end_off = offset + sz;
              current_words = word_size (len mem);
              required_words = word_size end_off
          in if required_words > current_words
             then mem @ replicate (nat (required_words * 32 - len mem)) 0
             else mem)"

definition memory_cost :: "int \<Rightarrow> int" where
  "memory_cost words = 3 * words + (words * words) div 512"

definition expansion_cost :: "Memory \<Rightarrow> int \<Rightarrow> int \<Rightarrow> int" where
  "expansion_cost mem offset sz =
    (if sz = 0 then 0
     else let end_off = offset + sz;
              current_words = word_size (len mem);
              required_words = word_size end_off
          in if required_words \<le> current_words then 0
             else memory_cost required_words - memory_cost current_words)"

text \<open>\<^verbatim>\<open>Memory.load\<close>: the bytes read and the buffer after the call.\<close>

definition mem_load :: "Memory \<Rightarrow> int \<Rightarrow> int \<Rightarrow> bytes \<times> Memory" where
  "mem_load mem offset sz =
    (if sz = 0 then ([], mem)
     else let mem' = mem_expand mem offset sz
          in (slice mem' offset (offset + sz), mem'))"

definition mem_load_word :: "Memory \<Rightarrow> int \<Rightarrow> int \<times> Memory" where
  "mem_load_word mem offset = (let (d, mem') = mem_load mem offset 32 in (from_bytes d, mem'))"

definition mem_store :: "Memory \<Rightarrow> int \<Rightarrow> bytes \<Rightarrow> Memory" where
  "mem_store mem offset d =
    (if d = [] then mem
     else let mem' = mem_expand mem offset (len d)
          in take (nat offset) mem' @ d @ drop (nat (offset + len d)) mem')"

definition mem_store_word :: "Memory \<Rightarrow> int \<Rightarrow> int \<Rightarrow> Memory" where
  "mem_store_word mem offset v = mem_store mem offset (be_bytes 32 (v AND (2 ^ 256 - 1)))"

definition mem_store_byte :: "Memory \<Rightarrow> int \<Rightarrow> int \<Rightarrow> Memory" where
  "mem_store_byte mem offset v =
     (mem_expand mem offset 1)[nat offset := word_of_int (v AND 0xFF)]"

definition mem_size :: "Memory \<Rightarrow> int" where
  "mem_size mem = len mem"

section \<open>Gas schedule (\<^verbatim>\<open>frontier/vm/gas.py\<close>)\<close>

text \<open>
  \<^verbatim>\<open>HomesteadGasSchedule\<close> and \<^verbatim>\<open>ShanghaiGasSchedule\<close> inherit every constant with the same
  value (\<^verbatim>\<open>G_CREATE\<close> is restated as 32000); Shanghai adds \<^verbatim>\<open>G_PUSH0\<close>.
\<close>

definition G_ZERO :: int where "G_ZERO = 0"
definition G_BASE :: int where "G_BASE = 2"
definition G_VERYLOW :: int where "G_VERYLOW = 3"
definition G_LOW :: int where "G_LOW = 5"
definition G_MID :: int where "G_MID = 8"
definition G_HIGH :: int where "G_HIGH = 10"
definition G_MEMORY :: int where "G_MEMORY = 3"
definition G_COPY :: int where "G_COPY = 3"
definition G_SLOAD :: int where "G_SLOAD = 50"
definition G_SSET :: int where "G_SSET = 20000"
definition G_SRESET :: int where "G_SRESET = 5000"
definition G_SCLEAR :: int where "G_SCLEAR = 5000"
definition G_CREATE :: int where "G_CREATE = 32000"
definition G_CODEDEPOSIT :: int where "G_CODEDEPOSIT = 200"
definition G_CALL :: int where "G_CALL = 40"
definition G_CALLVALUE :: int where "G_CALLVALUE = 9000"
definition G_CALLSTIPEND :: int where "G_CALLSTIPEND = 2300"
definition G_NEWACCOUNT :: int where "G_NEWACCOUNT = 25000"
definition G_JUMPDEST :: int where "G_JUMPDEST = 1"
definition G_EXP :: int where "G_EXP = 10"
definition G_EXPBYTE :: int where "G_EXPBYTE = 10"
definition G_SHA3 :: int where "G_SHA3 = 30"
definition G_SHA3WORD :: int where "G_SHA3WORD = 6"
definition G_BALANCE :: int where "G_BALANCE = 20"
definition G_EXTCODESIZE :: int where "G_EXTCODESIZE = 20"
definition G_EXTCODECOPY :: int where "G_EXTCODECOPY = 20"
definition G_BLOCKHASH :: int where "G_BLOCKHASH = 20"
definition G_LOG :: int where "G_LOG = 375"
definition G_LOGDATA :: int where "G_LOGDATA = 8"
definition G_LOGTOPIC :: int where "G_LOGTOPIC = 375"
definition G_SELFDESTRUCT :: int where "G_SELFDESTRUCT = 0"
definition G_TRANSACTION :: int where "G_TRANSACTION = 21000"
definition G_TXCREATE :: int where "G_TXCREATE = 53000"
definition G_TXDATAZERO :: int where "G_TXDATAZERO = 4"
definition G_TXDATANONZERO :: int where "G_TXDATANONZERO = 68"
definition G_PUSH0 :: int where "G_PUSH0 = 2"

definition memory_expansion_cost :: "int \<Rightarrow> int \<Rightarrow> int" where
  "memory_expansion_cost current_words new_words =
    (if new_words \<le> current_words then 0
     else (G_MEMORY * new_words + (new_words * new_words) div 512)
        - (G_MEMORY * current_words + (current_words * current_words) div 512))"

definition copy_cost :: "int \<Rightarrow> int" where
  "copy_cost sz = G_COPY * ((sz + 31) div 32)"

definition sha3_cost :: "int \<Rightarrow> int" where
  "sha3_cost sz = G_SHA3 + G_SHA3WORD * ((sz + 31) div 32)"

definition exp_cost :: "int \<Rightarrow> int" where
  "exp_cost exponent =
    (if exponent = 0 then G_EXP
     else G_EXP + G_EXPBYTE * ((bit_length exponent + 7) div 8))"

definition log_cost :: "int \<Rightarrow> int \<Rightarrow> int" where
  "log_cost data_size num_topics = G_LOG + G_LOGDATA * data_size + G_LOGTOPIC * num_topics"

definition call_cost :: "int \<Rightarrow> bool \<Rightarrow> int" where
  "call_cost val target_exists =
    G_CALL + (if val > 0 then G_CALLVALUE + (if \<not> target_exists then G_NEWACCOUNT else 0) else 0)"

definition sstore_cost :: "int \<Rightarrow> int \<Rightarrow> int" where
  "sstore_cost current_value new_value =
    (if current_value = 0 \<and> new_value \<noteq> 0 then G_SSET else G_SRESET)"

definition sstore_refund :: "int \<Rightarrow> int \<Rightarrow> int" where
  "sstore_refund current_value new_value =
    (if current_value \<noteq> 0 \<and> new_value = 0 then G_SCLEAR else 0)"

definition transaction_intrinsic_gas :: "bytes \<Rightarrow> bool \<Rightarrow> int" where
  "transaction_intrinsic_gas d is_create =
    foldl (\<lambda>gas b. if b = 0 then gas + G_TXDATAZERO else gas + G_TXDATANONZERO)
          (if is_create then G_TXCREATE else G_TRANSACTION) d"

section \<open>Opcodes (\<^verbatim>\<open>Opcode\<close> in \<^verbatim>\<open>common/types.py\<close>)\<close>

text \<open>
  \<open>OP_X\<close> is \<^verbatim>\<open>Opcode.X\<close>. Of the PUSH, DUP, SWAP and LOG families the interpreter
  names only the first and the last member.
\<close>

definition OP_STOP :: int where "OP_STOP = 0x00"
definition OP_ADD :: int where "OP_ADD = 0x01"
definition OP_MUL :: int where "OP_MUL = 0x02"
definition OP_SUB :: int where "OP_SUB = 0x03"
definition OP_DIV :: int where "OP_DIV = 0x04"
definition OP_SDIV :: int where "OP_SDIV = 0x05"
definition OP_MOD :: int where "OP_MOD = 0x06"
definition OP_SMOD :: int where "OP_SMOD = 0x07"
definition OP_ADDMOD :: int where "OP_ADDMOD = 0x08"
definition OP_MULMOD :: int where "OP_MULMOD = 0x09"
definition OP_EXP :: int where "OP_EXP = 0x0A"
definition OP_SIGNEXTEND :: int where "OP_SIGNEXTEND = 0x0B"
definition OP_LT :: int where "OP_LT = 0x10"
definition OP_GT :: int where "OP_GT = 0x11"
definition OP_SLT :: int where "OP_SLT = 0x12"
definition OP_SGT :: int where "OP_SGT = 0x13"
definition OP_EQ :: int where "OP_EQ = 0x14"
definition OP_ISZERO :: int where "OP_ISZERO = 0x15"
definition OP_AND :: int where "OP_AND = 0x16"
definition OP_OR :: int where "OP_OR = 0x17"
definition OP_XOR :: int where "OP_XOR = 0x18"
definition OP_NOT :: int where "OP_NOT = 0x19"
definition OP_BYTE :: int where "OP_BYTE = 0x1A"
definition OP_SHL :: int where "OP_SHL = 0x1B"
definition OP_SHR :: int where "OP_SHR = 0x1C"
definition OP_SAR :: int where "OP_SAR = 0x1D"
definition OP_SHA3 :: int where "OP_SHA3 = 0x20"
definition OP_ADDRESS :: int where "OP_ADDRESS = 0x30"
definition OP_BALANCE :: int where "OP_BALANCE = 0x31"
definition OP_ORIGIN :: int where "OP_ORIGIN = 0x32"
definition OP_CALLER :: int where "OP_CALLER = 0x33"
definition OP_CALLVALUE :: int where "OP_CALLVALUE = 0x34"
definition OP_CALLDATALOAD :: int where "OP_CALLDATALOAD = 0x35"
definition OP_CALLDATASIZE :: int where "OP_CALLDATASIZE = 0x36"
definition OP_CALLDATACOPY :: int where "OP_CALLDATACOPY = 0x37"
definition OP_CODESIZE :: int where "OP_CODESIZE = 0x38"
definition OP_CODECOPY :: int where "OP_CODECOPY = 0x39"
definition OP_GASPRICE :: int where "OP_GASPRICE = 0x3A"
definition OP_EXTCODESIZE :: int where "OP_EXTCODESIZE = 0x3B"
definition OP_EXTCODECOPY :: int where "OP_EXTCODECOPY = 0x3C"
definition OP_RETURNDATASIZE :: int where "OP_RETURNDATASIZE = 0x3D"
definition OP_RETURNDATACOPY :: int where "OP_RETURNDATACOPY = 0x3E"
definition OP_EXTCODEHASH :: int where "OP_EXTCODEHASH = 0x3F"
definition OP_BLOCKHASH :: int where "OP_BLOCKHASH = 0x40"
definition OP_COINBASE :: int where "OP_COINBASE = 0x41"
definition OP_TIMESTAMP :: int where "OP_TIMESTAMP = 0x42"
definition OP_NUMBER :: int where "OP_NUMBER = 0x43"
definition OP_DIFFICULTY :: int where "OP_DIFFICULTY = 0x44"
definition OP_GASLIMIT :: int where "OP_GASLIMIT = 0x45"
definition OP_CHAINID :: int where "OP_CHAINID = 0x46"
definition OP_SELFBALANCE :: int where "OP_SELFBALANCE = 0x47"
definition OP_BASEFEE :: int where "OP_BASEFEE = 0x48"
definition OP_POP :: int where "OP_POP = 0x50"
definition OP_MLOAD :: int where "OP_MLOAD = 0x51"
definition OP_MSTORE :: int where "OP_MSTORE = 0x52"
definition OP_MSTORE8 :: int where "OP_MSTORE8 = 0x53"
definition OP_SLOAD :: int where "OP_SLOAD = 0x54"
definition OP_SSTORE :: int where "OP_SSTORE = 0x55"
definition OP_JUMP :: int where "OP_JUMP = 0x56"
definition OP_JUMPI :: int where "OP_JUMPI = 0x57"
definition OP_PC :: int where "OP_PC = 0x58"
definition OP_MSIZE :: int where "OP_MSIZE = 0x59"
definition OP_GAS :: int where "OP_GAS = 0x5A"
definition OP_JUMPDEST :: int where "OP_JUMPDEST = 0x5B"
definition OP_PUSH0 :: int where "OP_PUSH0 = 0x5F"
definition OP_PUSH1 :: int where "OP_PUSH1 = 0x60"
definition OP_PUSH32 :: int where "OP_PUSH32 = 0x7F"
definition OP_DUP1 :: int where "OP_DUP1 = 0x80"
definition OP_DUP16 :: int where "OP_DUP16 = 0x8F"
definition OP_SWAP1 :: int where "OP_SWAP1 = 0x90"
definition OP_SWAP16 :: int where "OP_SWAP16 = 0x9F"
definition OP_LOG0 :: int where "OP_LOG0 = 0xA0"
definition OP_LOG4 :: int where "OP_LOG4 = 0xA4"
definition OP_CREATE :: int where "OP_CREATE = 0xF0"
definition OP_CALL :: int where "OP_CALL = 0xF1"
definition OP_CALLCODE :: int where "OP_CALLCODE = 0xF2"
definition OP_RETURN :: int where "OP_RETURN = 0xF3"
definition OP_DELEGATECALL :: int where "OP_DELEGATECALL = 0xF4"
definition OP_CREATE2 :: int where "OP_CREATE2 = 0xF5"
definition OP_STATICCALL :: int where "OP_STATICCALL = 0xFA"
definition OP_REVERT :: int where "OP_REVERT = 0xFD"
definition OP_INVALID :: int where "OP_INVALID = 0xFE"
definition OP_SELFDESTRUCT :: int where "OP_SELFDESTRUCT = 0xFF"

section \<open>Interpreter (\<^verbatim>\<open>frontier/vm/interpreter.py\<close>)\<close>

subsection \<open>What an opcode works on\<close>

text \<open>
  \<open>world\<close>: the objects shared by every frame of one interpreter, the \<^verbatim>\<open>State\<close> and the
  attribute \<^verbatim>\<open>self.return_data\<close>. \<open>frame\<close>: the objects created by one call of
  \<^verbatim>\<open>execute\<close> and mutated by its opcodes. \<open>OpcodeResult\<close>: the class \<^verbatim>\<open>_OpcodeResult\<close>.
\<close>

record world =
  w_state :: State
  w_return_data :: bytes

record frame =
  f_stack :: Stack
  f_memory :: Memory
  f_logs :: "Log list"

record OpcodeResult =
  or_pc :: int
  or_gas_remaining :: int
  or_done :: bool
  or_success :: bool
  or_return_data :: bytes
  or_error :: "error_tag option"
  or_created_address :: "bytes option"

definition OpcodeResult_default :: OpcodeResult where
  "OpcodeResult_default =
    \<lparr>or_pc = 0, or_gas_remaining = 0, or_done = False, or_success = True,
     or_return_data = [], or_error = None, or_created_address = None\<rparr>"

datatype fork = Frontier | Homestead | Shanghai

datatype call_type = CALL | CALLCODE | DELEGATECALL | STATICCALL

text \<open>
  The result of one opcode: \<open>None\<close> when a nested \<^verbatim>\<open>execute\<close> ran out of fuel, otherwise
  the world after the opcode together with either the raised exception or the returned
  \<^verbatim>\<open>_OpcodeResult\<close> and the mutated frame objects.
\<close>

type_synonym op_outcome = "((exn + OpcodeResult \<times> frame) \<times> world) option"

text \<open>What a nested \<^verbatim>\<open>self.execute(message)\<close> gives back.\<close>

type_synonym exec_outcome = "((py_error + ExecutionResult) \<times> world) option"

definition bind_exn :: "exn + 'a \<Rightarrow> ('a \<Rightarrow> exn + 'b) \<Rightarrow> exn + 'b" where
  "bind_exn m f = (case m of Inl e \<Rightarrow> Inl e | Inr x \<Rightarrow> f x)"

text \<open>\<^verbatim>\<open>Interpreter._charge_gas\<close>.\<close>

definition charge_gas :: "int \<Rightarrow> int \<Rightarrow> exn + int" where
  "charge_gas gas_remaining cost =
    (if cost > gas_remaining then Inl (Caught OutOfGasError) else Inr (gas_remaining - cost))"

text \<open>\<^verbatim>\<open>return _OpcodeResult(pc=pc, gas_remaining=gas_remaining)\<close>.\<close>

definition continue_at :: "int \<Rightarrow> int \<Rightarrow> frame \<Rightarrow> exn + OpcodeResult \<times> frame" where
  "continue_at pc gas_remaining fr =
     Inr (OpcodeResult_default\<lparr>or_pc := pc, or_gas_remaining := gas_remaining\<rparr>, fr)"

text \<open>An opcode that leaves the world as it is.\<close>

definition pure_op :: "world \<Rightarrow> exn + OpcodeResult \<times> frame \<Rightarrow> op_outcome" where
  "pure_op w r = Some (r, w)"

text \<open>\<^verbatim>\<open>Interpreter._find_jumpdests\<close>: the positions added to the set, in order.\<close>

function find_jumpdests_from :: "bytes \<Rightarrow> nat \<Rightarrow> int list" where
  "find_jumpdests_from code i =
    (if i < length code then
       let opcode = uint (code ! i);
           here = (if opcode = OP_JUMPDEST then [int i] else []);
           i' = (if OP_PUSH1 \<le> opcode \<and> opcode \<le> OP_PUSH32
                 then i + nat (opcode - OP_PUSH1 + 1) else i)
       in here @ find_jumpdests_from code (i' + 1)
     else [])"
  by pat_completeness auto
termination
  by (relation "measure (\<lambda>(code, i). length code - i)") auto

declare find_jumpdests_from.simps [simp del]

definition find_jumpdests :: "bytes \<Rightarrow> int list" where
  "find_jumpdests code = find_jumpdests_from code 0"

subsection \<open>Opcodes that only touch the frame\<close>

text \<open>
  The four shapes shared by most opcodes: charge \<open>cost\<close>, pop zero to three operands
  (the first pop is the first argument), push the value, go to \<open>pc + 1\<close>.
\<close>

definition op_nullary :: "int \<Rightarrow> int \<Rightarrow> int \<Rightarrow> int \<Rightarrow> frame \<Rightarrow> exn + OpcodeResult \<times> frame" where
  "op_nullary cost v pc gas_remaining fr =
    bind_exn (charge_gas gas_remaining cost) (\<lambda>gas_remaining.
    bind_exn (stack_push (f_stack fr) v) (\<lambda>st.
    continue_at (pc + 1) gas_remaining (fr\<lparr>f_stack := st\<rparr>)))"

definition op_unary ::
  "int \<Rightarrow> (int \<Rightarrow> int) \<Rightarrow> int \<Rightarrow> int \<Rightarrow> frame \<Rightarrow> exn + OpcodeResult \<times> frame" where
  "op_unary cost f pc gas_remaining fr =
    bind_exn (charge_gas gas_remaining cost) (\<lambda>gas_remaining.
    bind_exn (stack_pop (f_stack fr)) (\<lambda>(a, st).
    bind_exn (stack_push st (f a)) (\<lambda>st.
    continue_at (pc + 1) gas_remaining (fr\<lparr>f_stack := st\<rparr>))))"

definition op_binary ::
  "int \<Rightarrow> (int \<Rightarrow> int \<Rightarrow> int) \<Rightarrow> int \<Rightarrow> int \<Rightarrow> frame \<Rightarrow> exn + OpcodeResult \<times> frame" where
  "op_binary cost f pc gas_remaining fr =
    bind_exn (charge_gas gas_remaining cost) (\<lambda>gas_remaining.
    bind_exn (stack_pop (f_stack fr)) (\<lambda>(a, st).
    bind_exn (stack_pop st) (\<lambda>(b, st).
    bind_exn (stack_push st (f a b)) (\<lambda>st.
    continue_at (pc + 1) gas_remaining (fr\<lparr>f_stack := st\<rparr>)))))"

definition op_ternary ::
  "int \<Rightarrow> (int \<Rightarrow> int \<Rightarrow> int \<Rightarrow> int) \<Rightarrow> int \<Rightarrow> int \<Rightarrow> frame \<Rightarrow> exn + OpcodeResult \<times> frame"
where
  "op_ternary cost f pc gas_remaining fr =
    bind_exn (charge_gas gas_remaining cost) (\<lambda>gas_remaining.
    bind_exn (stack_pop (f_stack fr)) (\<lambda>(a, st).
    bind_exn (stack_pop st) (\<lambda>(b, st).
    bind_exn (stack_pop st) (\<lambda>(n, st).
    bind_exn (stack_push st (f a b n)) (\<lambda>st.
    continue_at (pc + 1) gas_remaining (fr\<lparr>f_stack := st\<rparr>))))))"

text \<open>The values pushed by the arithmetic and bitwise opcodes.\<close>

definition sdiv_value :: "int \<Rightarrow> int \<Rightarrow> int" where
  "sdiv_value a b =
    (if b = 0 then 0
     else let sa = unsigned_to_signed a; sb = unsigned_to_signed b
          in if sa = - (2 ^ 255) \<and> sb = - 1 then 2 ^ 255
             else let sign = (if (sa < 0) \<noteq> (sb < 0) then - 1 else 1);
                      result = sign * (\<bar>sa\<bar> div \<bar>sb\<bar>)
                  in signed_to_unsigned result)"

definition smod_value :: "int \<Rightarrow> int \<Rightarrow> int" where
  "smod_value a b =
    (if b = 0 then 0
     else let sa = unsigned_to_signed a; sb = unsigned_to_signed b;
              sign = (if sa < 0 then - 1 else 1);
              result = sign * (\<bar>sa\<bar> mod \<bar>sb\<bar>)
          in signed_to_unsigned result)"

definition signextend_value :: "int \<Rightarrow> int \<Rightarrow> int" where
  "signextend_value b x =
    (if b < 31 then
       let sign_bit = push_bit (nat (8 * b + 7)) 1;
           mask = push_bit (nat (8 * (b + 1))) 1 - 1
       in if x AND sign_bit \<noteq> 0 then x OR (MAX_U256 XOR mask) else x AND mask
     else x)"

definition byte_value :: "int \<Rightarrow> int \<Rightarrow> int" where
  "byte_value i x = (if i \<ge> 32 then 0 else drop_bit (nat (8 * (31 - i))) x AND 0xFF)"

definition shl_value :: "int \<Rightarrow> int \<Rightarrow> int" where
  "shl_value shift v = (if shift \<ge> 256 then 0 else u256 (push_bit (nat shift) v))"

definition shr_value :: "int \<Rightarrow> int \<Rightarrow> int" where
  "shr_value shift v = (if shift \<ge> 256 then 0 else drop_bit (nat shift) v)"

definition sar_value :: "int \<Rightarrow> int \<Rightarrow> int" where
  "sar_value shift v =
    (let signed_value = unsigned_to_signed v
     in if shift \<ge> 256 then (if signed_value < 0 then MAX_U256 else 0)
        else signed_to_unsigned (drop_bit (nat shift) signed_value))"

definition op_EXP :: "int \<Rightarrow> int \<Rightarrow> frame \<Rightarrow> exn + OpcodeResult \<times> frame" where
  "op_EXP pc gas_remaining fr =
    bind_exn (stack_pop (f_stack fr)) (\<lambda>(a, st).
    bind_exn (stack_pop st) (\<lambda>(b, st).
    bind_exn (charge_gas gas_remaining (exp_cost b)) (\<lambda>gas_remaining.
    bind_exn (stack_push st ((a ^ nat b) mod 2 ^ 256)) (\<lambda>st.
    continue_at (pc + 1) gas_remaining (fr\<lparr>f_stack := st\<rparr>)))))"

definition op_SHA3 :: "int \<Rightarrow> int \<Rightarrow> frame \<Rightarrow> exn + OpcodeResult \<times> frame" where
  "op_SHA3 pc gas_remaining fr =
    bind_exn (stack_pop (f_stack fr)) (\<lambda>(offset, st).
    bind_exn (stack_pop st) (\<lambda>(sz, st).
    let mem_cost = expansion_cost (f_memory fr) offset sz;
        gas_cost = sha3_cost sz + mem_cost
    in bind_exn (charge_gas gas_remaining gas_cost) (\<lambda>gas_remaining.
       let (d, mem) = mem_load (f_memory fr) offset sz;
           h = sha3_256 d
       in bind_exn (stack_push st (from_bytes h)) (\<lambda>st.
          continue_at (pc + 1) gas_remaining (fr\<lparr>f_stack := st, f_memory := mem\<rparr>)))))"

text \<open>The 32 bytes of calldata from \<open>offset\<close>, zero-padded, as a big-endian integer.\<close>

definition calldataload_value :: "bytes \<Rightarrow> int \<Rightarrow> int" where
  "calldataload_value d offset =
    foldl (\<lambda>v i. if offset + int i < len d
                  then push_bit 8 v OR uint (d ! nat (offset + int i))
                  else push_bit 8 v) 0 [0..<32]"

text \<open>\<open>sz\<close> bytes of \<open>src\<close> from \<open>src_offset\<close>, zero-padded past its end.\<close>

definition padded_copy :: "bytes \<Rightarrow> int \<Rightarrow> int \<Rightarrow> bytes" where
  "padded_copy src src_offset sz =
    map (\<lambda>i. if src_offset + int i < len src then src ! nat (src_offset + int i) else 0)
        [0..<nat sz]"

text \<open>CALLDATACOPY and CODECOPY, which differ in the source buffer only.\<close>

definition op_copy :: "bytes \<Rightarrow> int \<Rightarrow> int \<Rightarrow> frame \<Rightarrow> exn + OpcodeResult \<times> frame" where
  "op_copy src pc gas_remaining fr =
    bind_exn (stack_pop (f_stack fr)) (\<lambda>(dest_offset, st).
    bind_exn (stack_pop st) (\<lambda>(src_offset, st).
    bind_exn (stack_pop st) (\<lambda>(sz, st).
    let mem_cost = expansion_cost (f_memory fr) dest_offset sz
    in bind_exn (charge_gas gas_remaining (G_VERYLOW + mem_cost + copy_cost sz)) (\<lambda>gas_remaining.
       continue_at (pc + 1) gas_remaining
         (fr\<lparr>f_stack := st,
             f_memory := mem_store (f_memory fr) dest_offset (padded_copy src src_offset sz)\<rparr>)))))"

definition op_POP :: "int \<Rightarrow> int \<Rightarrow> frame \<Rightarrow> exn + OpcodeResult \<times> frame" where
  "op_POP pc gas_remaining fr =
    bind_exn (charge_gas gas_remaining G_BASE) (\<lambda>gas_remaining.
    bind_exn (stack_pop (f_stack fr)) (\<lambda>(a, st).
    continue_at (pc + 1) gas_remaining (fr\<lparr>f_stack := st\<rparr>)))"

definition op_MLOAD :: "int \<Rightarrow> int \<Rightarrow> frame \<Rightarrow> exn + OpcodeResult \<times> frame" where
  "op_MLOAD pc gas_remaining fr =
    bind_exn (stack_pop (f_stack fr)) (\<lambda>(offset, st).
    let mem_cost = expansion_cost (f_memory fr) offset 32
    in bind_exn (charge_gas gas_remaining (G_VERYLOW + mem_cost)) (\<lambda>gas_remaining.
       let (v, mem) = mem_load_word (f_memory fr) offset
       in bind_exn (stack_push st v) (\<lambda>st.
          continue_at (pc + 1) gas_remaining (fr\<lparr>f_stack := st, f_memory := mem\<rparr>))))"

definition op_MSTORE :: "int \<Rightarrow> int \<Rightarrow> frame \<Rightarrow> exn + OpcodeResult \<times> frame" where
  "op_MSTORE pc gas_remaining fr =
    bind_exn (stack_pop (f_stack fr)) (\<lambda>(offset, st).
    bind_exn (stack_pop st) (\<lambda>(v, st).
    let mem_cost = expansion_cost (f_memory fr) offset 32
    in bind_exn (charge_gas gas_remaining (G_VERYLOW + mem_cost)) (\<lambda>gas_remaining.
       continue_at (pc + 1) gas_remaining
         (fr\<lparr>f_stack := st, f_memory := mem_store_word (f_memory fr) offset v\<rparr>))))"

definition op_MSTORE8 :: "int \<Rightarrow> int \<Rightarrow> frame \<Rightarrow> exn + OpcodeResult \<times> frame" where
  "op_MSTORE8 pc gas_remaining fr =
    bind_exn (stack_pop (f_stack fr)) (\<lambda>(offset, st).
    bind_exn (stack_pop st) (\<lambda>(v, st).
    let mem_cost = expansion_cost (f_memory fr) offset 1
    in bind_exn (charge_gas gas_remaining (G_VERYLOW + mem_cost)) (\<lambda>gas_remaining.
       continue_at (pc + 1) gas_remaining
         (fr\<lparr>f_stack := st, f_memory := mem_store_byte (f_memory fr) offset v\<rparr>))))"

definition op_JUMP :: "int \<Rightarrow> int \<Rightarrow> frame \<Rightarrow> int list \<Rightarrow> exn + OpcodeResult \<times> frame" where
  "op_JUMP pc gas_remaining fr valid_jumpdests =
    bind_exn (charge_gas gas_remaining G_MID) (\<lambda>gas_remaining.
    bind_exn (stack_pop (f_stack fr)) (\<lambda>(dest, st).
    if dest \<notin> set valid_jumpdests then Inl (Caught InvalidJumpError)
    else continue_at dest gas_remaining (fr\<lparr>f_stack := st\<rparr>)))"

definition op_JUMPI :: "int \<Rightarrow> int \<Rightarrow> frame \<Rightarrow> int list \<Rightarrow> exn + OpcodeResult \<times> frame" where
  "op_JUMPI pc gas_remaining fr valid_jumpdests =
    bind_exn (charge_gas gas_remaining G_HIGH) (\<lambda>gas_remaining.
    bind_exn (stack_pop (f_stack fr)) (\<lambda>(dest, st).
    bind_exn (stack_pop st) (\<lambda>(cond, st).
    if cond \<noteq> 0 then
      (if dest \<notin> set valid_jumpdests then Inl (Caught InvalidJumpError)
       else continue_at dest gas_remaining (fr\<lparr>f_stack := st\<rparr>))
    else continue_at (pc + 1) gas_remaining (fr\<lparr>f_stack := st\<rparr>))))"

definition op_GAS :: "int \<Rightarrow> int \<Rightarrow> frame \<Rightarrow> exn + OpcodeResult \<times> frame" where
  "op_GAS pc gas_remaining fr =
    bind_exn (charge_gas gas_remaining G_BASE) (\<lambda>gas_remaining.
    bind_exn (stack_push (f_stack fr) gas_remaining) (\<lambda>st.
    continue_at (pc + 1) gas_remaining (fr\<lparr>f_stack := st\<rparr>)))"

definition op_JUMPDEST :: "int \<Rightarrow> int \<Rightarrow> frame \<Rightarrow> exn + OpcodeResult \<times> frame" where
  "op_JUMPDEST pc gas_remaining fr =
    bind_exn (charge_gas gas_remaining G_JUMPDEST) (\<lambda>gas_remaining.
    continue_at (pc + 1) gas_remaining fr)"

definition op_PUSH :: "int \<Rightarrow> int \<Rightarrow> bytes \<Rightarrow> int \<Rightarrow> frame \<Rightarrow> exn + OpcodeResult \<times> frame" where
  "op_PUSH opcode pc code gas_remaining fr =
    bind_exn (charge_gas gas_remaining G_VERYLOW) (\<lambda>gas_remaining.
    let push_size = opcode - OP_PUSH1 + 1;
        push_data = slice code (pc + 1) (pc + 1 + push_size);
        push_data = (if len push_data < push_size
                     then push_data @ replicate (nat (push_size - len push_data)) 0
                     else push_data);
        v = from_bytes push_data
    in bind_exn (stack_push (f_stack fr) v) (\<lambda>st.
       continue_at (pc + 1 + push_size) gas_remaining (fr\<lparr>f_stack := st\<rparr>)))"

definition op_DUP :: "int \<Rightarrow> int \<Rightarrow> int \<Rightarrow> frame \<Rightarrow> exn + OpcodeResult \<times> frame" where
  "op_DUP opcode pc gas_remaining fr =
    bind_exn (charge_gas gas_remaining G_VERYLOW) (\<lambda>gas_remaining.
    bind_exn (stack_dup (f_stack fr) (nat (opcode - OP_DUP1 + 1))) (\<lambda>st.
    continue_at (pc + 1) gas_remaining (fr\<lparr>f_stack := st\<rparr>)))"

definition op_SWAP :: "int \<Rightarrow> int \<Rightarrow> int \<Rightarrow> frame \<Rightarrow> exn + OpcodeResult \<times> frame" where
  "op_SWAP opcode pc gas_remaining fr =
    bind_exn (charge_gas gas_remaining G_VERYLOW) (\<lambda>gas_remaining.
    bind_exn (stack_swap (f_stack fr) (nat (opcode - OP_SWAP1 + 1))) (\<lambda>st.
    continue_at (pc + 1) gas_remaining (fr\<lparr>f_stack := st\<rparr>)))"

text \<open>\<^verbatim>\<open>[stack.pop().to_bytes(32, "big") for _ in range(num_topics)]\<close>.\<close>

primrec pop_topics :: "nat \<Rightarrow> Stack \<Rightarrow> exn + bytes list \<times> Stack" where
  "pop_topics 0 st = Inr ([], st)"
| "pop_topics (Suc n) st =
    bind_exn (stack_pop st) (\<lambda>(t, st).
    bind_exn (to_bytes t 32) (\<lambda>tb.
    bind_exn (pop_topics n st) (\<lambda>(ts, st). Inr (tb # ts, st))))"

definition op_LOG :: "int \<Rightarrow> int \<Rightarrow> frame \<Rightarrow> Message \<Rightarrow> int \<Rightarrow> exn + OpcodeResult \<times> frame" where
  "op_LOG opcode pc fr message gas_remaining =
    (if msg_is_static message then Inl (Caught WriteProtectionError)
     else let num_topics = opcode - OP_LOG0
          in bind_exn (stack_pop (f_stack fr)) (\<lambda>(offset, st).
             bind_exn (stack_pop st) (\<lambda>(sz, st).
             bind_exn (pop_topics (nat num_topics) st) (\<lambda>(topics, st).
             let mem_cost = expansion_cost (f_memory fr) offset sz;
                 log_cost = log_cost sz num_topics
             in bind_exn (charge_gas gas_remaining (mem_cost + log_cost)) (\<lambda>gas_remaining.
                let (d, mem) = mem_load (f_memory fr) offset sz
                in continue_at (pc + 1) gas_remaining
                     (fr\<lparr>f_stack := st, f_memory := mem,
                         f_logs := f_logs fr @
                           [\<lparr>log_address = msg_target message, log_topics = topics,
                             log_data = d\<rparr>]\<rparr>))))))"

text \<open>RETURN (\<open>success = True\<close>) and REVERT (\<open>success = False\<close>).\<close>

definition op_halt :: "bool \<Rightarrow> int \<Rightarrow> frame \<Rightarrow> exn + OpcodeResult \<times> frame" where
  "op_halt success gas_remaining fr =
    bind_exn (stack_pop (f_stack fr)) (\<lambda>(offset, st).
    bind_exn (stack_pop st) (\<lambda>(sz, st).
    let mem_cost = expansion_cost (f_memory fr) offset sz
    in bind_exn (charge_gas gas_remaining mem_cost) (\<lambda>gas_remaining.
       let (return_data, mem) = mem_load (f_memory fr) offset sz
       in Inr (OpcodeResult_default\<lparr>or_done := True, or_success := success,
                 or_gas_remaining := gas_remaining, or_return_data := return_data\<rparr>,
               fr\<lparr>f_stack := st, f_memory := mem\<rparr>))))"

subsection \<open>Opcodes that read the world\<close>

text \<open>BALANCE and EXTCODESIZE: charge, pop an address, push what \<open>f\<close> reads at it.\<close>

definition op_account_query ::
  "int \<Rightarrow> (bytes \<Rightarrow> int) \<Rightarrow> int \<Rightarrow> int \<Rightarrow> frame \<Rightarrow> exn + OpcodeResult \<times> frame" where
  "op_account_query cost f pc gas_remaining fr =
    bind_exn (charge_gas gas_remaining cost) (\<lambda>gas_remaining.
    bind_exn (stack_pop (f_stack fr)) (\<lambda>(addr, st).
    bind_exn (to_bytes addr 20) (\<lambda>address.
    bind_exn (stack_push st (f address)) (\<lambda>st.
    continue_at (pc + 1) gas_remaining (fr\<lparr>f_stack := st\<rparr>)))))"

definition op_EXTCODECOPY :: "State \<Rightarrow> int \<Rightarrow> int \<Rightarrow> frame \<Rightarrow> exn + OpcodeResult \<times> frame" where
  "op_EXTCODECOPY state pc gas_remaining fr =
    bind_exn (stack_pop (f_stack fr)) (\<lambda>(addr, st).
    bind_exn (stack_pop st) (\<lambda>(dest_offset, st).
    bind_exn (stack_pop st) (\<lambda>(src_offset, st).
    bind_exn (stack_pop st) (\<lambda>(sz, st).
    let mem_cost = expansion_cost (f_memory fr) dest_offset sz
    in bind_exn (charge_gas gas_remaining (G_EXTCODECOPY + mem_cost + copy_cost sz))
         (\<lambda>gas_remaining.
       bind_exn (to_bytes addr 20) (\<lambda>address.
       let ext_code = get_code state address
       in continue_at (pc + 1) gas_remaining
            (fr\<lparr>f_stack := st,
                f_memory := mem_store (f_memory fr) dest_offset
                              (padded_copy ext_code src_offset sz)\<rparr>)))))))"

definition op_RETURNDATACOPY :: "bytes \<Rightarrow> int \<Rightarrow> int \<Rightarrow> frame \<Rightarrow> exn + OpcodeResult \<times> frame"
where
  "op_RETURNDATACOPY return_data pc gas_remaining fr =
    bind_exn (stack_pop (f_stack fr)) (\<lambda>(dest_offset, st).
    bind_exn (stack_pop st) (\<lambda>(src_offset, st).
    bind_exn (stack_pop st) (\<lambda>(sz, st).
    if src_offset + sz > len return_data then Inl (Caught ReturnDataOutOfBounds)
    else let mem_cost = expansion_cost (f_memory fr) dest_offset sz
         in bind_exn (charge_gas gas_remaining (G_VERYLOW + mem_cost + copy_cost sz))
              (\<lambda>gas_remaining.
            continue_at (pc + 1) gas_remaining
              (fr\<lparr>f_stack := st,
                  f_memory := mem_store (f_memory fr) dest_offset
                                (slice return_data src_offset (src_offset + sz))\<rparr>)))))"

text \<open>
  EXTCODEHASH. The statement \<^verbatim>\<open>import hashlib\<close> in the SHA3 branch makes \<^verbatim>\<open>hashlib\<close> a
  local variable of the whole function \<^verbatim>\<open>_execute_opcode\<close>, and the module does not
  import it either; a call that takes another branch finds it unbound. So for an account
  that exists the reference \<^verbatim>\<open>hashlib.sha3_256\<close> raises \<^verbatim>\<open>UnboundLocalError\<close>, on both
  arms of \<^verbatim>\<open>if code\<close>.
\<close>

definition op_EXTCODEHASH :: "State \<Rightarrow> int \<Rightarrow> int \<Rightarrow> frame \<Rightarrow> exn + OpcodeResult \<times> frame" where
  "op_EXTCODEHASH state pc gas_remaining fr =
    bind_exn (charge_gas gas_remaining G_BALANCE) (\<lambda>gas_remaining.
    bind_exn (stack_pop (f_stack fr)) (\<lambda>(addr, st).
    bind_exn (to_bytes addr 20) (\<lambda>address.
    if \<not> account_exists state address then
      bind_exn (stack_push st 0) (\<lambda>st.
      continue_at (pc + 1) gas_remaining (fr\<lparr>f_stack := st\<rparr>))
    else Inl (Uncaught UnboundLocalError))))"

definition op_BLOCKHASH :: "Environment \<Rightarrow> int \<Rightarrow> int \<Rightarrow> frame \<Rightarrow> exn + OpcodeResult \<times> frame"
where
  "op_BLOCKHASH env pc gas_remaining fr =
    bind_exn (charge_gas gas_remaining G_BLOCKHASH) (\<lambda>gas_remaining.
    bind_exn (stack_pop (f_stack fr)) (\<lambda>(block_num, st).
    bind_exn (stack_push st
       (if block_num \<ge> env_number env \<or> env_number env - block_num > 256 then 0
        else from_bytes (case env_block_hashes env block_num of
                           Some h \<Rightarrow> h | None \<Rightarrow> replicate 32 0))) (\<lambda>st.
    continue_at (pc + 1) gas_remaining (fr\<lparr>f_stack := st\<rparr>))))"

definition op_SLOAD :: "State \<Rightarrow> int \<Rightarrow> frame \<Rightarrow> Message \<Rightarrow> int \<Rightarrow> exn + OpcodeResult \<times> frame"
where
  "op_SLOAD state pc fr message gas_remaining =
    bind_exn (charge_gas gas_remaining G_SLOAD) (\<lambda>gas_remaining.
    bind_exn (stack_pop (f_stack fr)) (\<lambda>(key, st).
    bind_exn (stack_push st (get_storage state (msg_target message) key)) (\<lambda>st.
    continue_at (pc + 1) gas_remaining (fr\<lparr>f_stack := st\<rparr>))))"

subsection \<open>Opcodes that change the world\<close>

definition op_SSTORE :: "int \<Rightarrow> frame \<Rightarrow> Message \<Rightarrow> int \<Rightarrow> world \<Rightarrow> op_outcome" where
  "op_SSTORE pc fr message gas_remaining w =
    (if msg_is_static message then Some (Inl (Caught WriteProtectionError), w)
     else
       case bind_exn (stack_pop (f_stack fr)) (\<lambda>(key, st).
            bind_exn (stack_pop st) (\<lambda>(val, st).
            let current = get_storage (w_state w) (msg_target message) key;
                gas_cost = sstore_cost current val
            in bind_exn (charge_gas gas_remaining gas_cost) (\<lambda>gas_remaining.
               Inr (key, val, st, gas_remaining)))) of
         Inl e \<Rightarrow> Some (Inl e, w)
       | Inr (key, val, st, gas_remaining) \<Rightarrow>
           Some (continue_at (pc + 1) gas_remaining (fr\<lparr>f_stack := st\<rparr>),
                 w\<lparr>w_state := set_storage (w_state w) (msg_target message) key val\<rparr>))"

text \<open>
  What CREATE does with the result of the init-code frame: \<^verbatim>\<open>self.return_data\<close> is
  overwritten, the code is deployed when the frame succeeded with enough gas left, and
  the new address or 0 is pushed. \<open>st\<close>, \<open>mem\<close> are the caller's stack and memory after
  the operands were popped and the init code was loaded.
\<close>

definition create_finish ::
  "int \<Rightarrow> Stack \<Rightarrow> Memory \<Rightarrow> frame \<Rightarrow> int \<Rightarrow> bytes \<Rightarrow> ExecutionResult \<Rightarrow> world \<Rightarrow>
   (exn + OpcodeResult \<times> frame) \<times> world" where
  "create_finish pc st mem fr gas_remaining new_address result w =
    (let w = w\<lparr>w_return_data := res_return_data result\<rparr>
     in if res_success result then
          let deploy_gas = len (res_return_data result) * G_CODEDEPOSIT
          in if res_gas_remaining result \<ge> deploy_gas then
               (bind_exn (stack_push st (from_bytes new_address)) (\<lambda>st.
                  continue_at (pc + 1) (gas_remaining + (res_gas_remaining result - deploy_gas))
                    (fr\<lparr>f_stack := st, f_memory := mem\<rparr>)),
                w\<lparr>w_state := set_code (w_state w) new_address (res_return_data result)\<rparr>)
             else
               (bind_exn (stack_push st 0) (\<lambda>st.
                  continue_at (pc + 1) (gas_remaining + res_gas_remaining result)
                    (fr\<lparr>f_stack := st, f_memory := mem\<rparr>)), w)
        else
          (bind_exn (stack_push st 0) (\<lambda>st.
             continue_at (pc + 1) (gas_remaining + res_gas_remaining result)
               (fr\<lparr>f_stack := st, f_memory := mem\<rparr>)), w))"

definition op_CREATE ::
  "(Message \<Rightarrow> world \<Rightarrow> exec_outcome) \<Rightarrow> int \<Rightarrow> frame \<Rightarrow> Message \<Rightarrow> int \<Rightarrow> world \<Rightarrow> op_outcome"
where
  "op_CREATE sub pc fr message gas_remaining w =
    (if msg_is_static message then Some (Inl (Caught WriteProtectionError), w)
     else
       case bind_exn (stack_pop (f_stack fr)) (\<lambda>(val, st).
            bind_exn (stack_pop st) (\<lambda>(offset, st).
            bind_exn (stack_pop st) (\<lambda>(sz, st).
            let mem_cost = expansion_cost (f_memory fr) offset sz
            in bind_exn (charge_gas gas_remaining (G_CREATE + mem_cost)) (\<lambda>gas_remaining.
               Inr (val, offset, sz, st, gas_remaining))))) of
         Inl e \<Rightarrow> Some (Inl e, w)
       | Inr (val, offset, sz, st, gas_remaining) \<Rightarrow>
           if get_balance (w_state w) (msg_target message) < val then
             Some (bind_exn (stack_push st 0) (\<lambda>st.
                     continue_at (pc + 1) gas_remaining (fr\<lparr>f_stack := st\<rparr>)), w)
           else
             let (init_code, mem) = mem_load (f_memory fr) offset sz;
                 sender_nonce = acc_nonce (get_account (w_state w) (msg_target message))
             in case create_address (msg_target message) sender_nonce of
                  Inl e \<Rightarrow> Some (Inl (Uncaught e), w)
                | Inr new_address \<Rightarrow>
                    let s1 = increment_nonce (w_state w) (msg_target message);
                        s2 = set_balance s1 (msg_target message)
                               (get_balance s1 (msg_target message) - val);
                        s3 = set_balance s2 new_address (get_balance s2 new_address + val);
                        create_gas = gas_remaining - gas_remaining div 64;
                        gas_remaining = gas_remaining - create_gas;
                        create_message =
                          \<lparr>msg_caller = msg_target message, msg_target = new_address,
                           msg_value = val, msg_data = [], msg_gas = create_gas,
                           msg_depth = msg_depth message + 1, msg_code = init_code,
                           msg_code_address = ZERO_ADDRESS, msg_is_static = False,
                           msg_is_create = True\<rparr>
                    in (case sub create_message (w\<lparr>w_state := s3\<rparr>) of
                          None \<Rightarrow> None
                        | Some (Inl e, w') \<Rightarrow> Some (Inl (Uncaught e), w')
                        | Some (Inr result, w') \<Rightarrow>
                            Some (create_finish pc st mem fr gas_remaining new_address result
                                    w')))"

text \<open>
  CREATE2. Once the balance check has passed, \<^verbatim>\<open>hashlib.sha3_256(init_code)\<close> is
  evaluated with \<^verbatim>\<open>hashlib\<close> unbound in this call of \<^verbatim>\<open>_execute_opcode\<close> (see EXTCODEHASH),
  so the opcode raises \<^verbatim>\<open>UnboundLocalError\<close> before it touches the state; the statements
  after that line are never reached.
\<close>

definition op_CREATE2 :: "int \<Rightarrow> frame \<Rightarrow> Message \<Rightarrow> int \<Rightarrow> world \<Rightarrow> op_outcome" where
  "op_CREATE2 pc fr message gas_remaining w =
    (if msg_is_static message then Some (Inl (Caught WriteProtectionError), w)
     else
       Some (bind_exn (stack_pop (f_stack fr)) (\<lambda>(val, st).
             bind_exn (stack_pop st) (\<lambda>(offset, st).
             bind_exn (stack_pop st) (\<lambda>(sz, st).
             bind_exn (stack_pop st) (\<lambda>(salt, st).
             let mem_cost = expansion_cost (f_memory fr) offset sz;
                 hash_cost = copy_cost sz
             in bind_exn (charge_gas gas_remaining (G_CREATE + mem_cost + hash_cost))
                  (\<lambda>gas_remaining.
                if get_balance (w_state w) (msg_target message) < val then
                  bind_exn (stack_push st 0) (\<lambda>st.
                  continue_at (pc + 1) gas_remaining (fr\<lparr>f_stack := st\<rparr>))
                else Inl (Uncaught UnboundLocalError)))))), w))"

definition op_SELFDESTRUCT :: "frame \<Rightarrow> Message \<Rightarrow> int \<Rightarrow> world \<Rightarrow> op_outcome" where
  "op_SELFDESTRUCT fr message gas_remaining w =
    (if msg_is_static message then Some (Inl (Caught WriteProtectionError), w)
     else
       case bind_exn (charge_gas gas_remaining G_SELFDESTRUCT) (\<lambda>gas_remaining.
            bind_exn (stack_pop (f_stack fr)) (\<lambda>(recipient_addr, st).
            bind_exn (to_bytes recipient_addr 20) (\<lambda>recipient.
            Inr (gas_remaining, st, recipient)))) of
         Inl e \<Rightarrow> Some (Inl e, w)
       | Inr (gas_remaining, st, recipient) \<Rightarrow>
           let s = w_state w;
               balance = get_balance s (msg_target message);
               s1 = set_balance s recipient (get_balance s recipient + balance);
               s2 = set_balance s1 (msg_target message) 0;
               s3 = set_account s2 (msg_target message) Account_default
           in Some (Inr (OpcodeResult_default\<lparr>or_done := True, or_success := True,
                           or_gas_remaining := gas_remaining\<rparr>, fr\<lparr>f_stack := st\<rparr>),
                    w\<lparr>w_state := s3\<rparr>))"

subsection \<open>\<^verbatim>\<open>_handle_call\<close>\<close>

text \<open>
  The function is split along its own comment lines. \<open>call_prepare\<close> is the part that
  can raise: the pops, the conversion of the address, the gas charge and the
  write-protection check. It returns the popped operands, the address, the stack and the
  gas left after the charge.
\<close>

definition call_prepare ::
  "frame \<Rightarrow> Message \<Rightarrow> int \<Rightarrow> call_type \<Rightarrow> world \<Rightarrow>
   exn + int \<times> bytes \<times> int \<times> int \<times> int \<times> int \<times> int \<times> Stack \<times> int" where
  "call_prepare fr message gas_remaining ct w =
     bind_exn (stack_pop (f_stack fr)) (\<lambda>(gas, st).
     bind_exn (stack_pop st) (\<lambda>(addr, st).
     bind_exn (if ct = CALL \<or> ct = CALLCODE then stack_pop st
               else if ct = DELEGATECALL then Inr (msg_value message, st)
               else Inr (0, st)) (\<lambda>(val, st).
     bind_exn (stack_pop st) (\<lambda>(args_offset, st).
     bind_exn (stack_pop st) (\<lambda>(args_size, st).
     bind_exn (stack_pop st) (\<lambda>(ret_offset, st).
     bind_exn (stack_pop st) (\<lambda>(ret_size, st).
     bind_exn (to_bytes addr 20) (\<lambda>address.
     let mem_cost_in = expansion_cost (f_memory fr) args_offset args_size;
         mem_cost_out = expansion_cost (f_memory fr) ret_offset ret_size;
         mem_cost = max mem_cost_in mem_cost_out;
         target_exists = account_exists (w_state w) address;
         call_cost = call_cost val target_exists;
         total_cost = call_cost + mem_cost
     in bind_exn (charge_gas gas_remaining total_cost) (\<lambda>gas_remaining.
        if msg_is_static message \<and> ct = CALL \<and> val > 0
        then Inl (Caught WriteProtectionError)
        else Inr (gas, address, val, args_offset, args_size, ret_offset, ret_size, st,
                  gas_remaining))))))))))"

text \<open>\<^verbatim>\<open># Calculate gas to forward\<close>: the value of \<^verbatim>\<open>gas_to_forward\<close>.\<close>

definition call_gas_to_forward :: "call_type \<Rightarrow> int \<Rightarrow> int \<Rightarrow> int \<Rightarrow> int" where
  "call_gas_to_forward ct val gas gas_remaining =
    (let gas_cap = gas_remaining - gas_remaining div 64;
         gas_to_forward = min gas gas_cap
     in if ct = CALL \<and> val > 0 then gas_to_forward + G_CALLSTIPEND else gas_to_forward)"

text \<open>\<^verbatim>\<open># Handle value transfer for CALL\<close>: the state the sub-frame starts from.\<close>

definition call_entry_state :: "call_type \<Rightarrow> Message \<Rightarrow> bytes \<Rightarrow> int \<Rightarrow> State \<Rightarrow> State" where
  "call_entry_state ct message address val state =
    (if ct = CALL \<and> val > 0 then
       let s1 = set_balance state (msg_target message)
                  (get_balance state (msg_target message) - val)
       in set_balance s1 address (get_balance s1 address + val)
     else state)"

text \<open>\<^verbatim>\<open># Get code for target\<close> and \<^verbatim>\<open># Execute call\<close>: the message of the sub-frame.\<close>

definition call_message ::
  "call_type \<Rightarrow> Message \<Rightarrow> State \<Rightarrow> bytes \<Rightarrow> int \<Rightarrow> bytes \<Rightarrow> int \<Rightarrow> Message" where
  "call_message ct message state address val call_data gas_to_forward =
    (let code_to_execute = get_code state address;
         target_address = (if ct = CALL \<or> ct = STATICCALL then address
                           else msg_target message);
         caller = (if ct = DELEGATECALL then msg_caller message else msg_target message)
     in \<lparr>msg_caller = caller, msg_target = target_address,
         msg_value = (if ct = CALL \<or> ct = CALLCODE then val else msg_value message),
         msg_data = call_data, msg_gas = gas_to_forward,
         msg_depth = msg_depth message + 1, msg_code = code_to_execute,
         msg_code_address = address,
         msg_is_static = (msg_is_static message \<or> ct = STATICCALL),
         msg_is_create = False\<rparr>)"

text \<open>
  The statements after \<^verbatim>\<open>result = self.execute(call_message)\<close>: \<^verbatim>\<open>self.return_data\<close> is
  overwritten, the unused gas comes back, the return data is copied to memory and 1 or 0
  is pushed. \<open>st\<close>, \<open>mem\<close>, \<open>gas_remaining\<close> are the caller's stack, memory and gas when the
  sub-frame was entered.
\<close>

definition call_finish ::
  "int \<Rightarrow> Stack \<Rightarrow> Memory \<Rightarrow> frame \<Rightarrow> int \<Rightarrow> int \<Rightarrow> int \<Rightarrow> ExecutionResult \<Rightarrow> world \<Rightarrow>
   (exn + OpcodeResult \<times> frame) \<times> world" where
  "call_finish pc st mem fr gas_remaining ret_offset ret_size result w =
    (let w = w\<lparr>w_return_data := res_return_data result\<rparr>;
         gas_remaining = gas_remaining + res_gas_remaining result;
         copy_size = min ret_size (len (res_return_data result));
         mem = (if copy_size > 0
                then mem_store mem ret_offset (slice (res_return_data result) 0 copy_size)
                else mem)
     in (bind_exn (stack_push st (if res_success result then 1 else 0)) (\<lambda>st.
           continue_at (pc + 1) gas_remaining (fr\<lparr>f_stack := st, f_memory := mem\<rparr>)), w))"

text \<open>\<open>sub\<close> stands for the nested \<^verbatim>\<open>self.execute\<close>.\<close>

definition handle_call ::
  "(Message \<Rightarrow> world \<Rightarrow> exec_outcome) \<Rightarrow> int \<Rightarrow> frame \<Rightarrow> Message \<Rightarrow> int \<Rightarrow> call_type \<Rightarrow>
   world \<Rightarrow> op_outcome" where
  "handle_call sub pc fr message gas_remaining ct w =
    (case call_prepare fr message gas_remaining ct w of
       Inl e \<Rightarrow> Some (Inl e, w)
     | Inr (gas, address, val, args_offset, args_size, ret_offset, ret_size, st,
            gas_remaining) \<Rightarrow>
         if ct = CALL \<and> val > 0 \<and> get_balance (w_state w) (msg_target message) < val then
           Some (bind_exn (stack_push st 0) (\<lambda>st.
                   continue_at (pc + 1) gas_remaining (fr\<lparr>f_stack := st\<rparr>)), w)
         else
           let gas_to_forward = call_gas_to_forward ct val gas gas_remaining;
               gas_remaining = gas_remaining - gas_to_forward;
               (call_data, mem) = mem_load (f_memory fr) args_offset args_size
           in (case sub (call_message ct message (w_state w) address val call_data
                           gas_to_forward)
                        (w\<lparr>w_state := call_entry_state ct message address val (w_state w)\<rparr>) of
                 None \<Rightarrow> None
               | Some (Inl e, w') \<Rightarrow> Some (Inl (Uncaught e), w')
               | Some (Inr result, w') \<Rightarrow>
                   Some (call_finish pc st mem fr gas_remaining ret_offset ret_size result
                           w')))"

subsection \<open>\<^verbatim>\<open>_execute_opcode\<close>\<close>

definition execute_opcode ::
  "(Message \<Rightarrow> world \<Rightarrow> exec_outcome) \<Rightarrow> Environment \<Rightarrow> int \<Rightarrow> int \<Rightarrow> bytes \<Rightarrow> frame \<Rightarrow>
   Message \<Rightarrow> int \<Rightarrow> int list \<Rightarrow> world \<Rightarrow> op_outcome" where
  "execute_opcode sub env opcode pc code fr message gas_remaining valid_jumpdests w =
    (if opcode = OP_STOP then
       pure_op w (Inr (OpcodeResult_default\<lparr>or_done := True, or_success := True,
                         or_gas_remaining := gas_remaining\<rparr>, fr))
     else if opcode = OP_ADD then
       pure_op w (op_binary G_VERYLOW (\<lambda>a b. u256 (a + b)) pc gas_remaining fr)
     else if opcode = OP_MUL then
       pure_op w (op_binary G_LOW (\<lambda>a b. u256 (a * b)) pc gas_remaining fr)
     else if opcode = OP_SUB then
       pure_op w (op_binary G_VERYLOW (\<lambda>a b. u256 (a - b)) pc gas_remaining fr)
     else if opcode = OP_DIV then
       pure_op w (op_binary G_LOW (\<lambda>a b. if b \<noteq> 0 then a div b else 0) pc gas_remaining fr)
     else if opcode = OP_SDIV then
       pure_op w (op_binary G_LOW sdiv_value pc gas_remaining fr)
     else if opcode = OP_MOD then
       pure_op w (op_binary G_LOW (\<lambda>a b. if b \<noteq> 0 then a mod b else 0) pc gas_remaining fr)
     else if opcode = OP_SMOD then
       pure_op w (op_binary G_LOW smod_value pc gas_remaining fr)
     else if opcode = OP_ADDMOD then
       pure_op w (op_ternary G_MID (\<lambda>a b n. if n \<noteq> 0 then (a + b) mod n else 0) pc gas_remaining fr)
     else if opcode = OP_MULMOD then
       pure_op w (op_ternary G_MID (\<lambda>a b n. if n \<noteq> 0 then (a * b) mod n else 0) pc gas_remaining fr)
     else if opcode = OP_EXP then
       pure_op w (op_EXP pc gas_remaining fr)
     else if opcode = OP_SIGNEXTEND then
       pure_op w (op_binary G_LOW signextend_value pc gas_remaining fr)
     else if opcode = OP_LT then
       pure_op w (op_binary G_VERYLOW (\<lambda>a b. if a < b then 1 else 0) pc gas_remaining fr)
     else if opcode = OP_GT then
       pure_op w (op_binary G_VERYLOW (\<lambda>a b. if a > b then 1 else 0) pc gas_remaining fr)
     else if opcode = OP_SLT then
       pure_op w (op_binary G_VERYLOW (\<lambda>a b. if unsigned_to_signed a < unsigned_to_signed b then 1 else 0) pc gas_remaining fr)
     else if opcode = OP_SGT then
       pure_op w (op_binary G_VERYLOW (\<lambda>a b. if unsigned_to_signed a > unsigned_to_signed b then 1 else 0) pc gas_remaining fr)
     else if opcode = OP_EQ then
       pure_op w (op_binary G_VERYLOW (\<lambda>a b. if a = b then 1 else 0) pc gas_remaining fr)
     else if opcode = OP_ISZERO then
       pure_op w (op_unary G_VERYLOW (\<lambda>a. if a = 0 then 1 else 0) pc gas_remaining fr)
     else if opcode = OP_AND then
       pure_op w (op_binary G_VERYLOW (\<lambda>a b. a AND b) pc gas_remaining fr)
     else if opcode = OP_OR then
       pure_op w (op_binary G_VERYLOW (\<lambda>a b. a OR b) pc gas_remaining fr)
     else if opcode = OP_XOR then
       pure_op w (op_binary G_VERYLOW (\<lambda>a b. a XOR b) pc gas_remaining fr)
     else if opcode = OP_NOT then
       pure_op w (op_unary G_VERYLOW (\<lambda>a. MAX_U256 XOR a) pc gas_remaining fr)
     else if opcode = OP_BYTE then
       pure_op w (op_binary G_VERYLOW byte_value pc gas_remaining fr)
     else if opcode = OP_SHL then
       pure_op w (op_binary G_VERYLOW shl_value pc gas_remaining fr)
     else if opcode = OP_SHR then
       pure_op w (op_binary G_VERYLOW shr_value pc gas_remaining fr)
     else if opcode = OP_SAR then
       pure_op w (op_binary G_VERYLOW sar_value pc gas_remaining fr)
     else if opcode = OP_SHA3 then
       pure_op w (op_SHA3 pc gas_remaining fr)
     else if opcode = OP_ADDRESS then
       pure_op w (op_nullary G_BASE (from_bytes (msg_target message)) pc gas_remaining fr)
     else if opcode = OP_BALANCE then
       pure_op w (op_account_query G_BALANCE (get_balance (w_state w)) pc gas_remaining fr)
     else if opcode = OP_ORIGIN then
       pure_op w (op_nullary G_BASE (from_bytes (env_origin env)) pc gas_remaining fr)
     else if opcode = OP_CALLER then
       pure_op w (op_nullary G_BASE (from_bytes (msg_caller message)) pc gas_remaining fr)
     else if opcode = OP_CALLVALUE then
       pure_op w (op_nullary G_BASE (msg_value message) pc gas_remaining fr)
     else if opcode = OP_CALLDATALOAD then
       pure_op w (op_unary G_VERYLOW (calldataload_value (msg_data message)) pc gas_remaining fr)
     else if opcode = OP_CALLDATASIZE then
       pure_op w (op_nullary G_BASE (len (msg_data message)) pc gas_remaining fr)
     else if opcode = OP_CALLDATACOPY then
       pure_op w (op_copy (msg_data message) pc gas_remaining fr)
     else if opcode = OP_CODESIZE then
       pure_op w (op_nullary G_BASE (len code) pc gas_remaining fr)
     else if opcode = OP_CODECOPY then
       pure_op w (op_copy code pc gas_remaining fr)
     else if opcode = OP_GASPRICE then
       pure_op w (op_nullary G_BASE (env_gas_price env) pc gas_remaining fr)
     else if opcode = OP_EXTCODESIZE then
       pure_op w (op_account_query G_EXTCODESIZE (\<lambda>address. len (get_code (w_state w) address)) pc gas_remaining fr)
     else if opcode = OP_EXTCODECOPY then
       pure_op w (op_EXTCODECOPY (w_state w) pc gas_remaining fr)
     else if opcode = OP_RETURNDATASIZE then
       pure_op w (op_nullary G_BASE (len (w_return_data w)) pc gas_remaining fr)
     else if opcode = OP_RETURNDATACOPY then
       pure_op w (op_RETURNDATACOPY (w_return_data w) pc gas_remaining fr)
     else if opcode = OP_EXTCODEHASH then
       pure_op w (op_EXTCODEHASH (w_state w) pc gas_remaining fr)
     else if opcode = OP_BLOCKHASH then
       pure_op w (op_BLOCKHASH env pc gas_remaining fr)
     else if opcode = OP_COINBASE then
       pure_op w (op_nullary G_BASE (from_bytes (env_coinbase env)) pc gas_remaining fr)
     else if opcode = OP_TIMESTAMP then
       pure_op w (op_nullary G_BASE (env_timestamp env) pc gas_remaining fr)
     else if opcode = OP_NUMBER then
       pure_op w (op_nullary G_BASE (env_number env) pc gas_remaining fr)
     else if opcode = OP_DIFFICULTY then
       pure_op w (op_nullary G_BASE (env_difficulty env) pc gas_remaining fr)
     else if opcode = OP_GASLIMIT then
       pure_op w (op_nullary G_BASE (env_gas_limit env) pc gas_remaining fr)
     else if opcode = OP_CHAINID then
       pure_op w (op_nullary G_BASE (env_chain_id env) pc gas_remaining fr)
     else if opcode = OP_SELFBALANCE then
       pure_op w (op_nullary G_LOW (get_balance (w_state w) (msg_target message)) pc gas_remaining fr)
     else if opcode = OP_BASEFEE then
       pure_op w (op_nullary G_BASE (env_base_fee env) pc gas_remaining fr)
     else if opcode = OP_POP then
       pure_op w (op_POP pc gas_remaining fr)
     else if opcode = OP_MLOAD then
       pure_op w (op_MLOAD pc gas_remaining fr)
     else if opcode = OP_MSTORE then
       pure_op w (op_MSTORE pc gas_remaining fr)
     else if opcode = OP_MSTORE8 then
       pure_op w (op_MSTORE8 pc gas_remaining fr)
     else if opcode = OP_SLOAD then
       pure_op w (op_SLOAD (w_state w) pc fr message gas_remaining)
     else if opcode = OP_SSTORE then
       op_SSTORE pc fr message gas_remaining w
     else if opcode = OP_JUMP then
       pure_op w (op_JUMP pc gas_remaining fr valid_jumpdests)
     else if opcode = OP_JUMPI then
       pure_op w (op_JUMPI pc gas_remaining fr valid_jumpdests)
     else if opcode = OP_PC then
       pure_op w (op_nullary G_BASE pc pc gas_remaining fr)
     else if opcode = OP_MSIZE then
       pure_op w (op_nullary G_BASE (mem_size (f_memory fr)) pc gas_remaining fr)
     else if opcode = OP_GAS then
       pure_op w (op_GAS pc gas_remaining fr)
     else if opcode = OP_JUMPDEST then
       pure_op w (op_JUMPDEST pc gas_remaining fr)
     else if OP_PUSH1 \<le> opcode \<and> opcode \<le> OP_PUSH32 then
       pure_op w (op_PUSH opcode pc code gas_remaining fr)
     else if OP_DUP1 \<le> opcode \<and> opcode \<le> OP_DUP16 then
       pure_op w (op_DUP opcode pc gas_remaining fr)
     else if OP_SWAP1 \<le> opcode \<and> opcode \<le> OP_SWAP16 then
       pure_op w (op_SWAP opcode pc gas_remaining fr)
     else if OP_LOG0 \<le> opcode \<and> opcode \<le> OP_LOG4 then
       pure_op w (op_LOG opcode pc fr message gas_remaining)
     else if opcode = OP_CREATE then
       op_CREATE sub pc fr message gas_remaining w
     else if opcode = OP_CALL then
       handle_call sub pc fr message gas_remaining CALL w
     else if opcode = OP_CALLCODE then
       handle_call sub pc fr message gas_remaining CALLCODE w
     else if opcode = OP_RETURN then
       pure_op w (op_halt True gas_remaining fr)
     else if opcode = OP_DELEGATECALL then
       handle_call sub pc fr message gas_remaining DELEGATECALL w
     else if opcode = OP_CREATE2 then
       op_CREATE2 pc fr message gas_remaining w
     else if opcode = OP_STATICCALL then
       handle_call sub pc fr message gas_remaining STATICCALL w
     else if opcode = OP_REVERT then
       pure_op w (op_halt False gas_remaining fr)
     else if opcode = OP_INVALID then
       pure_op w (Inl (Caught InvalidOpcodeError))
     else if opcode = OP_SELFDESTRUCT then
       op_SELFDESTRUCT fr message gas_remaining w
     else pure_op w (Inl (Caught InvalidOpcodeError)))"

subsection \<open>\<^verbatim>\<open>execute\<close>\<close>

text \<open>
  The dispatch loop of \<^verbatim>\<open>Interpreter.execute\<close> (Frontier, inherited unchanged by
  Homestead) and of \<^verbatim>\<open>ShanghaiInterpreter.execute\<close>, which differ in the treatment of
  byte \<open>0x5F\<close> only. \<open>loop_iteration\<close> is the test and the body of the \<^verbatim>\<open>while\<close> loop,
  with \<open>continue\<close> standing for the iterations that follow, and the statement after the
  loop. In \<open>run_loop\<close> the \<open>nat\<close> argument is fuel: every iteration uses one unit, and
  \<open>None\<close> means that the fuel ran out. \<open>Inl e\<close> is an exception that left the loop.
\<close>

definition loop_iteration ::
  "(int \<Rightarrow> int \<Rightarrow> frame \<Rightarrow> world \<Rightarrow> ((exn + ExecutionResult) \<times> world) option) \<Rightarrow>
   (Message \<Rightarrow> world \<Rightarrow> exec_outcome) \<Rightarrow> fork \<Rightarrow> Environment \<Rightarrow> Message \<Rightarrow> int list \<Rightarrow>
   int \<Rightarrow> int \<Rightarrow> frame \<Rightarrow> world \<Rightarrow> ((exn + ExecutionResult) \<times> world) option" where
  "loop_iteration continue sub fk env message valid_jumpdests pc gas_remaining fr w =
    (if pc < len (msg_code message) then
       let opcode_byte = uint (msg_code message ! nat pc)
       in if opcode_byte = OP_PUSH0 then
            (if fk = Shanghai then
               (case bind_exn (charge_gas gas_remaining G_PUSH0) (\<lambda>gas_remaining.
                     bind_exn (stack_push (f_stack fr) 0) (\<lambda>st. Inr (gas_remaining, st))) of
                  Inl e \<Rightarrow> Some (Inl e, w)
                | Inr (gas_remaining, st) \<Rightarrow>
                    continue (pc + 1) gas_remaining (fr\<lparr>f_stack := st\<rparr>) w)
             else Some (Inl (Caught InvalidOpcodeError), w))
          else
            (case execute_opcode sub env opcode_byte pc (msg_code message) fr message
                    gas_remaining valid_jumpdests w of
               None \<Rightarrow> None
             | Some (Inl e, w') \<Rightarrow> Some (Inl e, w')
             | Some (Inr (result, fr'), w') \<Rightarrow>
                 if or_done result then
                   Some (Inr \<lparr>res_success = or_success result,
                              res_gas_used = msg_gas message - or_gas_remaining result,
                              res_gas_remaining = or_gas_remaining result,
                              res_return_data = or_return_data result,
                              res_logs = f_logs fr',
                              res_error = or_error result,
                              res_created_address = or_created_address result\<rparr>, w')
                 else continue (or_pc result) (or_gas_remaining result) fr' w')
     else Some (Inr (ExecutionResult_default
                       \<lparr>res_success := True, res_gas_used := msg_gas message - gas_remaining,
                        res_gas_remaining := gas_remaining, res_logs := f_logs fr\<rparr>), w))"

primrec run_loop ::
  "(Message \<Rightarrow> world \<Rightarrow> exec_outcome) \<Rightarrow> fork \<Rightarrow> Environment \<Rightarrow> Message \<Rightarrow> int list \<Rightarrow>
   nat \<Rightarrow> int \<Rightarrow> int \<Rightarrow> frame \<Rightarrow> world \<Rightarrow> ((exn + ExecutionResult) \<times> world) option" where
  "run_loop sub fk env message valid_jumpdests 0 = (\<lambda>pc gas_remaining fr w. None)"
| "run_loop sub fk env message valid_jumpdests (Suc k) =
     loop_iteration (run_loop sub fk env message valid_jumpdests k)
       sub fk env message valid_jumpdests"

text \<open>The result built by every \<^verbatim>\<open>except\<close> clause of \<^verbatim>\<open>execute\<close>.\<close>

definition failed_result :: "Message \<Rightarrow> error_tag \<Rightarrow> ExecutionResult" where
  "failed_result message tag =
    ExecutionResult_default\<lparr>res_success := False, res_gas_used := msg_gas message,
      res_gas_remaining := 0, res_error := Some tag\<rparr>"

definition MAX_CALL_DEPTH :: int where
  "MAX_CALL_DEPTH = 1024"

text \<open>One call of \<^verbatim>\<open>execute\<close>, given the \<^verbatim>\<open>execute\<close> of the nested frames.\<close>

definition exec_frame ::
  "(Message \<Rightarrow> world \<Rightarrow> exec_outcome) \<Rightarrow> fork \<Rightarrow> Environment \<Rightarrow> nat \<Rightarrow> Message \<Rightarrow> world \<Rightarrow>
   exec_outcome" where
  "exec_frame sub fk env k message w =
    (if msg_depth message > MAX_CALL_DEPTH then
       Some (Inr (failed_result message CallDepthExceeded), w)
     else
       case run_loop sub fk env message (find_jumpdests (msg_code message)) k 0
              (msg_gas message) \<lparr>f_stack = [], f_memory = [], f_logs = []\<rparr> w of
         None \<Rightarrow> None
       | Some (Inl (Caught e), w') \<Rightarrow> Some (Inr (failed_result message (FrameError e)), w')
       | Some (Inl (Uncaught e), w') \<Rightarrow> Some (Inl e, w')
       | Some (Inr result, w') \<Rightarrow> Some (Inr result, w'))"

text \<open>
  \<^verbatim>\<open>interpreter.execute(message)\<close> for the interpreter class of fork \<open>fk\<close>.

  A nested call re-enters \<^verbatim>\<open>execute\<close> from \<^verbatim>\<open>_handle_call\<close> or from the CREATE branch of
  \<^verbatim>\<open>_execute_opcode\<close>, so every level of nesting takes two or three frames of the Python
  stack. Python raises \<^verbatim>\<open>RecursionError\<close> when the stack is full, and none of the
  \<^verbatim>\<open>except\<close> clauses catches it. With the default recursion limit of 1000 that happens
  long before the depth of 1024 that \<^verbatim>\<open>execute\<close> checks itself. How much room there is
  depends on the caller of the interpreter, so it is the first argument \<open>d\<close>: the number
  of nested calls of \<^verbatim>\<open>execute\<close> the Python stack has room for. A call beyond that raises
  \<^verbatim>\<open>RecursionError\<close> in the world as it is at that point. The second argument \<open>n\<close> is
  the fuel every frame has for the iterations of its loop.
\<close>

primrec execute ::
  "nat \<Rightarrow> nat \<Rightarrow> fork \<Rightarrow> Environment \<Rightarrow> Message \<Rightarrow> world \<Rightarrow> exec_outcome" where
  "execute 0 n fk env = (\<lambda>message w. Some (Inl RecursionError, w))"
| "execute (Suc d) n fk env = exec_frame (execute d n fk env) fk env n"

section \<open>Transaction driver (\<^verbatim>\<open>{frontier,homestead,shanghai}/fork.py\<close>)\<close>

text \<open>
  The three \<^verbatim>\<open>fork.py\<close> files are copies of one another up to the interpreter class and,
  for Shanghai, the three additions marked below; the argument \<open>fk\<close> selects the file.
\<close>

definition validate_transaction :: "fork \<Rightarrow> Transaction \<Rightarrow> State \<Rightarrow> error_tag option" where
  "validate_transaction fk tx state =
    (let sender_account = get_account state (tx_sender tx)
     in if acc_nonce sender_account \<noteq> tx_nonce tx then Some InvalidNonce
        else
          let is_create = (tx_to tx = None);
              intrinsic_gas = transaction_intrinsic_gas (tx_data tx) is_create
          in if tx_gas tx < intrinsic_gas then Some IntrinsicGasTooLow
             else
               let required = tx_gas tx * tx_gas_price tx + tx_value tx
               in if acc_balance sender_account < required then Some InsufficientBalance
                  else if fk = Shanghai \<and> is_create \<and> len (tx_data tx) > 49152
                  then Some InitcodeTooLarge
                  else None)"

text \<open>The \<^verbatim>\<open>Environment\<close> that \<^verbatim>\<open>state_transition\<close> builds for the interpreter.\<close>

definition tx_environment :: "Transaction \<Rightarrow> Environment \<Rightarrow> Environment" where
  "tx_environment tx env =
    \<lparr>env_caller = tx_sender tx, env_origin = tx_sender tx,
     env_block_hashes = env_block_hashes env, env_coinbase = env_coinbase env,
     env_number = env_number env, env_gas_limit = env_gas_limit env,
     env_gas_price = tx_gas_price tx, env_timestamp = env_timestamp env,
     env_difficulty = env_difficulty env, env_chain_id = env_chain_id env,
     env_base_fee = env_base_fee env\<rparr>"

text \<open>
  The branch \<^verbatim>\<open>if is_create\<close>: the state and the result it leaves for the common tail.
  Shanghai checks the size of the returned code first.
\<close>

definition transition_create ::
  "nat \<Rightarrow> nat \<Rightarrow> fork \<Rightarrow> State \<Rightarrow> Transaction \<Rightarrow> Environment \<Rightarrow> Account \<Rightarrow> int \<Rightarrow>
   (py_error + State \<times> ExecutionResult) option" where
  "transition_create d n fk state tx tx_env sender_account gas_remaining =
    (case create_address (tx_sender tx) (acc_nonce sender_account) of
       Inl e \<Rightarrow> Some (Inl e)
     | Inr contract_address \<Rightarrow>
         let state = (if tx_value tx > 0 then
                        let s1 = set_balance state (tx_sender tx)
                                   (get_balance state (tx_sender tx) - tx_value tx)
                        in set_balance s1 contract_address
                             (get_balance s1 contract_address + tx_value tx)
                      else state);
             message =
               \<lparr>msg_caller = tx_sender tx, msg_target = contract_address,
                msg_value = tx_value tx, msg_data = [], msg_gas = gas_remaining, msg_depth = 0,
                msg_code = tx_data tx, msg_code_address = ZERO_ADDRESS, msg_is_static = False,
                msg_is_create = True\<rparr>
         in if \<not> Message_valid message then Some (Inl ValidationError)
            else
              case execute d n fk tx_env message \<lparr>w_state = state, w_return_data = []\<rparr> of
                None \<Rightarrow> None
              | Some (Inl e, w) \<Rightarrow> Some (Inl e)
              | Some (Inr result, w) \<Rightarrow>
                  if res_success result then
                    (if fk = Shanghai \<and> len (res_return_data result) > 24576 then
                       Some (Inr (w_state w,
                         ExecutionResult_default\<lparr>res_success := False, res_gas_used := tx_gas tx,
                           res_gas_remaining := 0, res_error := Some CodeSizeLimitExceeded\<rparr>))
                     else
                       let deploy_gas = len (res_return_data result) * G_CODEDEPOSIT
                       in if res_gas_remaining result \<ge> deploy_gas then
                            Some (Inr (set_code (w_state w) contract_address (res_return_data result),
                              ExecutionResult_default\<lparr>res_success := True,
                                res_gas_used := tx_gas tx - res_gas_remaining result + deploy_gas,
                                res_gas_remaining := res_gas_remaining result - deploy_gas,
                                res_return_data := res_return_data result,
                                res_logs := res_logs result,
                                res_created_address := Some contract_address\<rparr>))
                          else
                            Some (Inr (w_state w,
                              ExecutionResult_default\<lparr>res_success := False,
                                res_gas_used := tx_gas tx, res_gas_remaining := 0,
                                res_error := Some OutOfGasForCodeDeployment\<rparr>)))
                  else Some (Inr (w_state w, result)))"

text \<open>The branch \<^verbatim>\<open>else\<close> (message call), with \<open>to\<close> the value of \<^verbatim>\<open>tx.to\<close>.\<close>

definition transition_call ::
  "nat \<Rightarrow> nat \<Rightarrow> fork \<Rightarrow> State \<Rightarrow> Transaction \<Rightarrow> Environment \<Rightarrow> bytes \<Rightarrow> int \<Rightarrow>
   (py_error + State \<times> ExecutionResult) option" where
  "transition_call d n fk state tx tx_env to gas_remaining =
    (let target = (if to = [] then ZERO_ADDRESS else to);
         code = get_code state target;
         state = (if tx_value tx > 0 then
                    let s1 = set_balance state (tx_sender tx)
                               (get_balance state (tx_sender tx) - tx_value tx)
                    in set_balance s1 target (get_balance s1 target + tx_value tx)
                  else state);
         message =
           \<lparr>msg_caller = tx_sender tx, msg_target = target, msg_value = tx_value tx,
            msg_data = tx_data tx, msg_gas = gas_remaining, msg_depth = 0, msg_code = code,
            msg_code_address = ZERO_ADDRESS, msg_is_static = False, msg_is_create = False\<rparr>
     in if \<not> Message_valid message then Some (Inl ValidationError)
        else
          case execute d n fk tx_env message \<lparr>w_state = state, w_return_data = []\<rparr> of
            None \<Rightarrow> None
          | Some (Inl e, w) \<Rightarrow> Some (Inl e)
          | Some (Inr result, w) \<Rightarrow> Some (Inr (w_state w, result)))"

text \<open>The common tail: gas used, refund to the sender, payment of the coinbase.\<close>

definition transition_finish ::
  "State \<Rightarrow> Transaction \<Rightarrow> Environment \<Rightarrow> int \<Rightarrow> ExecutionResult \<Rightarrow> State \<times> ExecutionResult"
where
  "transition_finish state tx env intrinsic_gas result =
    (let total_gas_used = (if res_success result then intrinsic_gas + res_gas_used result
                           else tx_gas tx);
         refund = (tx_gas tx - total_gas_used) * tx_gas_price tx;
         state = set_balance state (tx_sender tx) (get_balance state (tx_sender tx) + refund);
         coinbase_reward = total_gas_used * tx_gas_price tx;
         state = set_balance state (env_coinbase env)
                   (get_balance state (env_coinbase env) + coinbase_reward)
     in (state,
         \<lparr>res_success = res_success result, res_gas_used = total_gas_used,
          res_gas_remaining = tx_gas tx - total_gas_used,
          res_return_data = res_return_data result,
          res_logs = (if res_success result then res_logs result else []),
          res_error = res_error result,
          res_created_address =
            (if res_success result then res_created_address result else None)\<rparr>))"

text \<open>
  \<^verbatim>\<open>state_transition(state, tx, env)\<close> of fork \<open>fk\<close>, with the arguments \<open>d\<close> and \<open>n\<close> of
  \<open>execute\<close>: \<open>None\<close> when the fuel ran out, \<open>Inl e\<close> when a Python exception escaped,
  otherwise the returned pair.
\<close>

definition state_transition ::
  "nat \<Rightarrow> nat \<Rightarrow> fork \<Rightarrow> State \<Rightarrow> Transaction \<Rightarrow> Environment \<Rightarrow>
   (py_error + State \<times> ExecutionResult) option" where
  "state_transition d n fk state tx env =
    (let state = state_copy state
     in case validate_transaction fk tx state of
          Some error \<Rightarrow>
            Some (Inr (state, ExecutionResult_default\<lparr>res_success := False,
                                res_error := Some error, res_gas_used := 0\<rparr>))
        | None \<Rightarrow>
            let sender_account = get_account state (tx_sender tx);
                upfront_cost = tx_gas tx * tx_gas_price tx;
                state = set_balance state (tx_sender tx)
                          (acc_balance sender_account - upfront_cost);
                state = increment_nonce state (tx_sender tx);
                is_create = (tx_to tx = None);
                intrinsic_gas = transaction_intrinsic_gas (tx_data tx) is_create;
                intrinsic_gas =
                  (if fk = Shanghai \<and> is_create
                   then intrinsic_gas + 2 * ((len (tx_data tx) + 31) div 32)
                   else intrinsic_gas);
                gas_remaining = tx_gas tx - intrinsic_gas;
                tx_env = tx_environment tx env
            in (case (case tx_to tx of
                        None \<Rightarrow> transition_create d n fk state tx tx_env sender_account
                                  gas_remaining
                      | Some to \<Rightarrow> transition_call d n fk state tx tx_env to gas_remaining) of
                  None \<Rightarrow> None
                | Some (Inl e) \<Rightarrow> Some (Inl e)
                | Some (Inr (state, result)) \<Rightarrow>
                    Some (Inr (transition_finish state tx env intrinsic_gas result))))"

section \<open>Example inputs\<close>

text \<open>Concrete inputs at which the theorems below are instantiated and evaluated.\<close>

definition example_env :: Environment where
  "example_env =
    \<lparr>env_caller = ZERO_ADDRESS, env_origin = ZERO_ADDRESS, env_block_hashes = Map.empty,
     env_coinbase = replicate 19 0 @ [0xFF], env_number = 1000, env_gas_limit = 10000000,
     env_gas_price = 1, env_timestamp = 1000000, env_difficulty = 1, env_chain_id = 1,
     env_base_fee = 0\<rparr>"

definition empty_world :: world where
  "empty_world = \<lparr>w_state = \<lparr>accounts = Map.empty\<rparr>, w_return_data = []\<rparr>"


text \<open>
  The funded sender of the repository's tests, \<open>0x00..01\<close> with balance \<open>10^18\<close>, and two
  creation transactions: one whose gas limit lies between the base intrinsic gas (53004)
  and the full Shanghai intrinsic gas (53006), and the creation of
  \<^verbatim>\<open>test_contract_creation\<close> (init code PUSH1 0x42, PUSH1 0, MSTORE, PUSH1 32, PUSH1 0,
  RETURN; gas limit 100000).
\<close>

definition sender_A :: bytes where
  "sender_A = replicate 19 0 @ [1]"

definition funded_state :: State where
  "funded_state =
    \<lparr>accounts = [sender_A \<mapsto> \<lparr>acc_nonce = 0, acc_balance = 10 ^ 18, acc_code = [],
                                 acc_storage = Map.empty\<rparr>]\<rparr>"

definition underfunded_create_tx :: Transaction where
  "underfunded_create_tx =
    \<lparr>tx_sender = sender_A, tx_to = None, tx_value = 0, tx_data = [0x00], tx_gas = 53004,
     tx_gas_price = 1, tx_nonce = 0\<rparr>"

definition creation_tx :: Transaction where
  "creation_tx =
    \<lparr>tx_sender = sender_A, tx_to = None, tx_value = 0,
     tx_data = [0x60, 0x42, 0x60, 0x00, 0x52, 0x60, 0x20, 0x60, 0x00, 0xF3],
     tx_gas = 100000, tx_gas_price = 1, tx_nonce = 0\<rparr>"

text \<open>
  A caller contract at \<open>0x00..01\<close> with balance 10 that calls the contract at \<open>0x00..02\<close>
  with value 1, and the world that holds the two.
\<close>

definition contract_B :: bytes where
  "contract_B = replicate 19 0 @ [2]"

text \<open>
  PUSH1 0 (four times: \<open>ret_size\<close>, \<open>ret_offset\<close>, \<open>args_size\<close>, \<open>args_offset\<close>), PUSH1 1
  (value), PUSH1 2 (address), PUSH2 0xFFFF (gas), CALL, STOP.
\<close>

definition caller_code :: bytes where
  "caller_code = [0x60, 0x00, 0x60, 0x00, 0x60, 0x00, 0x60, 0x00, 0x60, 0x01, 0x60, 0x02,
                  0x61, 0xFF, 0xFF, 0xF1, 0x00]"

text \<open>PUSH1 1, PUSH1 0, SSTORE, INVALID: writes 1 to slot 0, then fails.\<close>

definition storing_then_invalid_code :: bytes where
  "storing_then_invalid_code = [0x60, 0x01, 0x60, 0x00, 0x55, 0xFE]"

definition call_world :: "bytes \<Rightarrow> world" where
  "call_world callee_code =
    \<lparr>w_state = \<lparr>accounts =
       [sender_A \<mapsto> \<lparr>acc_nonce = 0, acc_balance = 10, acc_code = caller_code,
                        acc_storage = Map.empty\<rparr>,
        contract_B \<mapsto> \<lparr>acc_nonce = 0, acc_balance = 0, acc_code = callee_code,
                          acc_storage = Map.empty\<rparr>]\<rparr>,
     w_return_data = []\<rparr>"

definition caller_message :: "int \<Rightarrow> Message" where
  "caller_message gas =
    \<lparr>msg_caller = ZERO_ADDRESS, msg_target = sender_A, msg_value = 0, msg_data = [],
     msg_gas = gas, msg_depth = 0, msg_code = caller_code, msg_code_address = ZERO_ADDRESS,
     msg_is_static = False, msg_is_create = False\<rparr>"

text \<open>The frame of the caller when it reaches the CALL at \<open>pc = 15\<close>.\<close>

definition frame_at_call :: frame where
  "frame_at_call = \<lparr>f_stack = [0xFFFF, 2, 1, 0, 0, 0, 0], f_memory = [], f_logs = []\<rparr>"

text \<open>
  A contract that hashes the empty byte string and returns the digest: PUSH1 0 (size),
  PUSH1 0 (offset), SHA3, PUSH1 0, MSTORE, PUSH1 32, PUSH1 0, RETURN.
\<close>

definition sha3_program :: bytes where
  "sha3_program = [0x60, 0x00, 0x60, 0x00, 0x20, 0x60, 0x00, 0x52, 0x60, 0x20, 0x60, 0x00, 0xF3]"

definition sha3_message :: Message where
  "sha3_message =
    \<lparr>msg_caller = ZERO_ADDRESS, msg_target = contract_B, msg_value = 0, msg_data = [],
     msg_gas = 100, msg_depth = 0, msg_code = sha3_program, msg_code_address = ZERO_ADDRESS,
     msg_is_static = False, msg_is_create = False\<rparr>"

chapter \<open>Properties\<close>

section \<open>Basic facts\<close>

lemmas gas_constants =
  G_ZERO_def G_BASE_def G_VERYLOW_def G_LOW_def G_MID_def G_HIGH_def G_MEMORY_def G_COPY_def
  G_SLOAD_def G_SSET_def G_SRESET_def G_SCLEAR_def G_CREATE_def G_CODEDEPOSIT_def G_CALL_def
  G_CALLVALUE_def G_CALLSTIPEND_def G_NEWACCOUNT_def G_JUMPDEST_def G_EXP_def G_EXPBYTE_def
  G_SHA3_def G_SHA3WORD_def G_BALANCE_def G_EXTCODESIZE_def G_EXTCODECOPY_def G_BLOCKHASH_def
  G_LOG_def G_LOGDATA_def G_LOGTOPIC_def G_SELFDESTRUCT_def G_TRANSACTION_def G_TXCREATE_def
  G_TXDATAZERO_def G_TXDATANONZERO_def G_PUSH0_def

lemmas opcode_values =
  OP_STOP_def OP_ADD_def OP_MUL_def OP_SUB_def OP_DIV_def OP_SDIV_def
  OP_MOD_def OP_SMOD_def OP_ADDMOD_def OP_MULMOD_def OP_EXP_def OP_SIGNEXTEND_def
  OP_LT_def OP_GT_def OP_SLT_def OP_SGT_def OP_EQ_def OP_ISZERO_def
  OP_AND_def OP_OR_def OP_XOR_def OP_NOT_def OP_BYTE_def OP_SHL_def
  OP_SHR_def OP_SAR_def OP_SHA3_def OP_ADDRESS_def OP_BALANCE_def OP_ORIGIN_def
  OP_CALLER_def OP_CALLVALUE_def OP_CALLDATALOAD_def OP_CALLDATASIZE_def OP_CALLDATACOPY_def OP_CODESIZE_def
  OP_CODECOPY_def OP_GASPRICE_def OP_EXTCODESIZE_def OP_EXTCODECOPY_def OP_RETURNDATASIZE_def OP_RETURNDATACOPY_def
  OP_EXTCODEHASH_def OP_BLOCKHASH_def OP_COINBASE_def OP_TIMESTAMP_def OP_NUMBER_def OP_DIFFICULTY_def
  OP_GASLIMIT_def OP_CHAINID_def OP_SELFBALANCE_def OP_BASEFEE_def OP_POP_def OP_MLOAD_def
  OP_MSTORE_def OP_MSTORE8_def OP_SLOAD_def OP_SSTORE_def OP_JUMP_def OP_JUMPI_def
  OP_PC_def OP_MSIZE_def OP_GAS_def OP_JUMPDEST_def OP_PUSH0_def OP_PUSH1_def
  OP_PUSH32_def OP_DUP1_def OP_DUP16_def OP_SWAP1_def OP_SWAP16_def OP_LOG0_def
  OP_LOG4_def OP_CREATE_def OP_CALL_def OP_CALLCODE_def OP_RETURN_def OP_DELEGATECALL_def
  OP_CREATE2_def OP_STATICCALL_def OP_REVERT_def OP_INVALID_def OP_SELFDESTRUCT_def

lemma bind_exn_Inl [simp]: "bind_exn (Inl e) f = Inl e"
  by (simp add: bind_exn_def)

lemma bind_exn_Inr [simp]: "bind_exn (Inr x) f = f x"
  by (simp add: bind_exn_def)

text \<open>
  Evaluation of the model on concrete inputs goes through the simplifier with the
  definitions below. The weak congruence rules keep it from rewriting inside a
  continuation before the value it is applied to is known.
\<close>

lemma bind_exn_weak_cong: "m = m' \<Longrightarrow> bind_exn m f = bind_exn m' f"
  by simp

lemma run_loop_numeral:
  "run_loop sub fk env message jd (numeral n) =
     loop_iteration (run_loop sub fk env message jd (pred_numeral n)) sub fk env message jd"
  by (simp add: numeral_eq_Suc)

lemma execute_numeral:
  "execute (numeral k) n fk env = exec_frame (execute (pred_numeral k) n fk env) fk env n"
  by (simp add: numeral_eq_Suc)

lemma be_bytes_numeral:
  "be_bytes (numeral n) v = be_bytes (pred_numeral n) (v div 256) @ [word_of_int v]"
  by (simp add: numeral_eq_Suc)

lemma replicate_numeral_unfold:
  "replicate (numeral n) x = x # replicate (pred_numeral n) x"
  by (simp add: numeral_eq_Suc)

lemma length_keccak_round: "length (keccak_round a rc) = 25"
  by (simp add: keccak_round_def iota_def chi_def)

lemma length_foldl_keccak_round:
  "rcs \<noteq> [] \<Longrightarrow> length (foldl keccak_round a rcs) = 25"
  by (induction rcs rule: rev_induct) (simp_all add: length_keccak_round)

lemma length_keccak_f: "length (keccak_f a) = 25"
  unfolding keccak_f_def by (rule length_foldl_keccak_round) (simp add: keccak_rc_def)

lemma length_foldl_absorb:
  "length a = 25 \<Longrightarrow> length (foldl absorb_block a blocks) = 25"
  by (induction blocks rule: rev_induct) (simp_all add: absorb_block_def length_keccak_f)

lemma length_bytes_of_lane: "length (bytes_of_lane w) = 8"
  by (simp add: bytes_of_lane_def)

lemma length_concat_lanes:
  "length (concat (map bytes_of_lane ls)) = 8 * length ls"
  by (induction ls) (simp_all add: length_bytes_of_lane)

lemma length_sponge256: "length (sponge256 suffix m) = 32"
  by (simp add: sponge256_def Let_def length_concat_lanes length_foldl_absorb)

lemma length_sha3_256: "length (sha3_256 m) = 32"
  by (simp add: sha3_256_def length_sponge256)

lemma length_create_address: "create_address sender nonce = Inr a \<Longrightarrow> length a = 20"
  by (auto simp add: create_address_def Let_def length_sha3_256 split: sum.splits)

subsection \<open>Evaluating the hash function\<close>

text \<open>
  One round of the permutation on a state given by its 25 lanes, as a straight-line
  program; the simplifier evaluates it lane by lane.
\<close>

lemma upt_unfold: "[i..<j] = (if i < j then i # [Suc i..<j] else [])"
  by (rule upt_rec)

lemma keccak_round_unrolled:
  "keccak_round
      [a0, a1, a2, a3, a4, a5, a6, a7, a8, a9, a10, a11, a12,
       a13, a14, a15, a16, a17, a18, a19, a20, a21, a22, a23, a24] rc =
     (let c0 = a0 XOR a5 XOR a10 XOR a15 XOR a20; c1 = a1 XOR a6 XOR a11 XOR a16 XOR a21;
          c2 = a2 XOR a7 XOR a12 XOR a17 XOR a22; c3 = a3 XOR a8 XOR a13 XOR a18 XOR a23;
          c4 = a4 XOR a9 XOR a14 XOR a19 XOR a24; d0 = c4 XOR rotl64 c1 1;
          d1 = c0 XOR rotl64 c2 1; d2 = c1 XOR rotl64 c3 1; d3 = c2 XOR rotl64 c4 1;
          d4 = c3 XOR rotl64 c0 1; t0 = a0 XOR d0; t1 = a1 XOR d1; t2 = a2 XOR d2;
          t3 = a3 XOR d3; t4 = a4 XOR d4; t5 = a5 XOR d0; t6 = a6 XOR d1; t7 = a7 XOR d2;
          t8 = a8 XOR d3; t9 = a9 XOR d4; t10 = a10 XOR d0; t11 = a11 XOR d1;
          t12 = a12 XOR d2; t13 = a13 XOR d3; t14 = a14 XOR d4; t15 = a15 XOR d0;
          t16 = a16 XOR d1; t17 = a17 XOR d2; t18 = a18 XOR d3; t19 = a19 XOR d4;
          t20 = a20 XOR d0; t21 = a21 XOR d1; t22 = a22 XOR d2; t23 = a23 XOR d3;
          t24 = a24 XOR d4; b0 = rotl64 t0 0; b1 = rotl64 t6 44; b2 = rotl64 t12 43;
          b3 = rotl64 t18 21; b4 = rotl64 t24 14; b5 = rotl64 t3 28; b6 = rotl64 t9 20;
          b7 = rotl64 t10 3; b8 = rotl64 t16 45; b9 = rotl64 t22 61; b10 = rotl64 t1 1;
          b11 = rotl64 t7 6; b12 = rotl64 t13 25; b13 = rotl64 t19 8; b14 = rotl64 t20 18;
          b15 = rotl64 t4 27; b16 = rotl64 t5 36; b17 = rotl64 t11 10; b18 = rotl64 t17 15;
          b19 = rotl64 t23 56; b20 = rotl64 t2 62; b21 = rotl64 t8 55; b22 = rotl64 t14 39;
          b23 = rotl64 t15 41; b24 = rotl64 t21 2
      in [(b0 XOR (NOT b1 AND b2)) XOR rc, b1 XOR (NOT b2 AND b3), b2 XOR (NOT b3 AND b4),
          b3 XOR (NOT b4 AND b0), b4 XOR (NOT b0 AND b1), b5 XOR (NOT b6 AND b7),
          b6 XOR (NOT b7 AND b8), b7 XOR (NOT b8 AND b9), b8 XOR (NOT b9 AND b5),
          b9 XOR (NOT b5 AND b6), b10 XOR (NOT b11 AND b12), b11 XOR (NOT b12 AND b13),
          b12 XOR (NOT b13 AND b14), b13 XOR (NOT b14 AND b10), b14 XOR (NOT b10 AND b11),
          b15 XOR (NOT b16 AND b17), b16 XOR (NOT b17 AND b18), b17 XOR (NOT b18 AND b19),
          b18 XOR (NOT b19 AND b15), b19 XOR (NOT b15 AND b16), b20 XOR (NOT b21 AND b22),
          b21 XOR (NOT b22 AND b23), b22 XOR (NOT b23 AND b24), b23 XOR (NOT b24 AND b20),
          b24 XOR (NOT b20 AND b21)])"
  by (simp add: keccak_round_def iota_def chi_def rho_pi_def theta_def keccak_rot_def
        Let_def upt_unfold nth_Cons_numeral)

text \<open>
  The bitwise operations on words given by numerals, reduced to the operations on
  \<^typ>\<open>num\<close>.
\<close>

lemma word_xor_num:
  "(numeral m :: 'a::len word) XOR numeral n
     = (case xor_num m n of None \<Rightarrow> 0 | Some q \<Rightarrow> numeral q)"
proof -
  have "(numeral m :: 'a word) XOR numeral n = of_int (numeral m XOR numeral n)"
    by (simp only: of_int_xor_eq of_int_numeral)
  then show ?thesis
    by (simp add: numeral_xor_num split: option.split)
qed

lemma word_and_num:
  "(numeral m :: 'a::len word) AND numeral n
     = (case and_num m n of None \<Rightarrow> 0 | Some q \<Rightarrow> numeral q)"
proof -
  have "(numeral m :: 'a word) AND numeral n = of_int (numeral m AND numeral n)"
    by (simp only: of_int_and_eq of_int_numeral)
  then show ?thesis
    by (simp add: numeral_and_num split: option.split)
qed

lemma not64: "NOT (x :: 64 word) = x XOR 0xFFFFFFFFFFFFFFFF"
proof -
  have "(0xFFFFFFFFFFFFFFFF :: 64 word) = - 1"
    by simp
  then show ?thesis
    by (simp only: bit.xor_one_right)
qed

lemma rotl64_of_int:
  "rotl64 (word_of_int i) n
     = word_of_int ((push_bit n i AND 0xFFFFFFFFFFFFFFFF)
                    OR drop_bit (64 - n) (i AND 0xFFFFFFFFFFFFFFFF))"
proof -
  have m: "(0xFFFFFFFFFFFFFFFF :: int) = mask 64"
    by (simp add: mask_eq_exp_minus_1)
  show ?thesis
    unfolding m rotl64_def
    by (rule bit_word_eqI) (auto simp add: bit_simps)
qed

lemma rotl64_numeral:
  "rotl64 (numeral k) (numeral n)
     = word_of_int ((push_bit (numeral n) (numeral k) AND 0xFFFFFFFFFFFFFFFF)
                    OR drop_bit (64 - numeral n) (numeral k AND 0xFFFFFFFFFFFFFFFF))"
  using rotl64_of_int [of "numeral k" "numeral n"] by simp

lemma rotl64_0: "rotl64 w 0 = w"
  by (simp add: rotl64_def)

lemma rotl64_zero: "rotl64 0 n = 0"
  by (simp add: rotl64_def)

lemma one_numeral:
  "(1 :: 64 word) = Numeral1" "(1 :: int) = Numeral1" "(1 :: nat) = Numeral1"
  by simp_all

lemma drop_bit_numeral_One: "drop_bit (numeral l) (Numeral1 :: int) = 0"
  by simp

lemma int_xor_num:
  "(numeral m :: int) XOR numeral n
     = (case xor_num m n of None \<Rightarrow> 0 | Some q \<Rightarrow> numeral q)"
  by (rule numeral_xor_num)

lemma int_and_num:
  "(numeral m :: int) AND numeral n
     = (case and_num m n of None \<Rightarrow> 0 | Some q \<Rightarrow> numeral q)"
  by (rule numeral_and_num)

lemma int_or_num: "(numeral m :: int) OR numeral n = numeral (or_num m n)"
  by (rule numeral_or_num)

lemmas lane_eval =
  word_xor_num word_and_num not64 rotl64_numeral rotl64_0 rotl64_zero one_numeral
  int_xor_num int_and_num int_or_num xor_num.simps and_num.simps or_num.simps
  option.case option.map
  xor.left_neutral xor.right_neutral and_zero_eq zero_and_eq or.left_neutral or.right_neutral
  push_bit_numeral push_bit_0_id id_apply push_bit_of_0
  drop_bit_numeral_bit0 drop_bit_numeral_bit1 drop_bit_numeral_One drop_bit_0 drop_bit_of_0
  pred_numeral_simps BitM.simps
  diff_nat_numeral diff_numeral_simps Num.sub_num_simps nat_numeral
  Num.dbl_simps Num.dbl_inc_simps Num.dbl_dec_simps
  word_of_int_numeral word_of_int_0


text \<open>
  The permutation on the two states that absorbing the padded empty message gives: the
  first lane holds the domain suffix, lane 16 the final bit of the padding.
\<close>

lemma keccak_f_sha3_empty:
  "keccak_f
     [0x06, 0, 0, 0, 0, 0, 0, 0, 0, 0, 0, 0, 0, 0, 0, 0, 0x8000000000000000,
       0, 0, 0, 0, 0, 0, 0, 0]
   = [0x66D71EBFF8C6FFA7, 0x62D661A05647C151, 0xFA493BE44DFF80F5, 0x4A43F8804B0AD882,
      0xE2F36B34B7BE6652, 0xFF875921CACC9566, 0x80D97B5776B3BA89, 0x28DEBD55FC6A313B,
      0x03AC3D19F1E48ECC, 0x78193AECC1E434E9, 0xC287A923AFE81E79, 0x21684AE301601F33,
      0x282E7E469E09E75F, 0xD17D1ED2C282B6B8, 0xF050E0D2ADAF434E, 0x5375F6FB6AA989B0,
      0xC2C6B96032FAF11E, 0x63684DD3F055A1B2, 0xD908398B988EC2B2, 0x913F10903E0BD326,
      0x33FC34664D479817, 0x2B715C1A078FDE58, 0x140B7C9251369779, 0x857343A7AABDEB5E,
      0x92136E0EFB7B70E5]"
  by (simp only: keccak_f_def keccak_rc_def foldl.simps keccak_round_unrolled Let_def lane_eval
        cong: let_weak_cong)

lemma keccak_f_keccak_empty:
  "keccak_f
     [0x01, 0, 0, 0, 0, 0, 0, 0, 0, 0, 0, 0, 0, 0, 0, 0, 0x8000000000000000,
      0, 0, 0, 0, 0, 0, 0, 0]
   = [0x3C23F7860146D2C5, 0xC003C7DCB27D7E92, 0x3B2782CA53B600E5, 0x70A4855D04D8FA7B,
      0x74A97CD82C9ABB3D, 0xCB9B1161ECB0A2B9, 0x1F2211C4C0F9ED5C, 0x820DC6175FA24161,
      0x81BABFBCAB8046D2, 0xB1D551B7242B765B, 0x3CF26D5EBA2553E8, 0x3BCE6A98FE5B7210,
      0xBA7D9FA73545D2A2, 0xFA0D3CD3B03B15BB, 0x3BFED7EB12C7CE09, 0xEB829C854E19A949,
      0x1B5D1A6545A611FF, 0x064146F400E16B72, 0xFE8734E16471AB9F, 0x9C3088BDEEBB0936,
      0xDEE8B8ECA7B2ACBA, 0x163B62B71DCF4521, 0x6B571B9910726D91, 0xB7FA22CF622318BE,
      0xA3FE1AF7779FAFD7]"
  by (simp only: keccak_f_def keccak_rc_def foldl.simps keccak_round_unrolled Let_def lane_eval
        cong: let_weak_cong)

lemma chunks_numeral:
  "chunks (numeral n) k xs = take k xs # chunks (pred_numeral n) k (drop k xs)"
  by (simp add: numeral_eq_Suc)

lemma sponge256_empty:
  "sponge256 suffix [] =
     concat (map bytes_of_lane (take 4 (keccak_f
       [ucast suffix, 0, 0, 0, 0, 0, 0, 0, 0, 0, 0, 0, 0, 0, 0, 0, 0x8000000000000000,
        0, 0, 0, 0, 0, 0, 0, 0])))"
  by (simp add: sponge256_def sponge_pad_def absorb_block_def Let_def chunks_numeral
        replicate_numeral_unfold)

lemma sha3_256_empty:
  "sha3_256 [] =
     [0xA7, 0xFF, 0xC6, 0xF8, 0xBF, 0x1E, 0xD7, 0x66,
     0x51, 0xC1, 0x47, 0x56, 0xA0, 0x61, 0xD6, 0x62,
     0xF5, 0x80, 0xFF, 0x4D, 0xE4, 0x3B, 0x49, 0xFA,
     0x82, 0xD8, 0x0A, 0x4B, 0x80, 0xF8, 0x43, 0x4A]"
  by (simp add: sha3_256_def sponge256_empty keccak_f_sha3_empty bytes_of_lane_def upt_unfold)

lemma keccak256_empty:
  "keccak256 [] =
     [0xC5, 0xD2, 0x46, 0x01, 0x86, 0xF7, 0x23, 0x3C,
     0x92, 0x7E, 0x7D, 0xB2, 0xDC, 0xC7, 0x03, 0xC0,
     0xE5, 0x00, 0xB6, 0x53, 0xCA, 0x82, 0x27, 0x3B,
     0x7B, 0xFA, 0xD8, 0x04, 0x5D, 0x85, 0xA4, 0x70]"
  by (simp add: keccak256_def sponge256_empty keccak_f_keccak_empty bytes_of_lane_def upt_unfold)

subsection \<open>Evaluating the interpreter\<close>

lemmas state_defs =
  Account_default_def copy_with_def get_account_def set_account_def get_balance_def
  set_balance_def get_code_def set_code_def get_storage_def set_storage_def
  increment_nonce_def state_copy_def account_exists_def

lemmas machine_defs =
  slice_def from_bytes_def be_bytes_numeral replicate_numeral_unfold to_bytes_def MAX_U256_def ZERO_ADDRESS_def u256_def
  MAX_DEPTH_def stack_push_def stack_pop_def stack_dup_def stack_swap_def
  word_size_def mem_expand_def memory_cost_def expansion_cost_def mem_load_def
  mem_load_word_def mem_store_def mem_store_word_def mem_store_byte_def mem_size_def
  copy_cost_def sha3_cost_def log_cost_def call_cost_def sstore_cost_def
  transaction_intrinsic_gas_def
  OpcodeResult_default_def ExecutionResult_default_def charge_gas_def continue_at_def
  pure_op_def

lemmas opcode_defs =
  op_nullary_def op_unary_def op_binary_def op_ternary_def op_POP_def op_MLOAD_def
  op_MSTORE_def op_MSTORE8_def op_JUMP_def op_JUMPI_def op_GAS_def op_JUMPDEST_def
  op_PUSH_def op_DUP_def op_SWAP_def op_halt_def op_SLOAD_def op_SSTORE_def
  op_account_query_def create_finish_def op_CREATE_def op_SELFDESTRUCT_def op_SHA3_def
  call_prepare_def call_gas_to_forward_def call_entry_state_def call_message_def
  call_finish_def handle_call_def execute_opcode_def

lemmas driver_defs =
  loop_iteration_def run_loop_numeral failed_result_def MAX_CALL_DEPTH_def exec_frame_def
  execute_numeral Message_valid_def find_jumpdests_def rlp_encode_bytes_def
  rlp_encode_int_def create_address_def length_sha3_256
  validate_transaction_def tx_environment_def transition_create_def transition_call_def
  transition_finish_def state_transition_def

lemmas eval_defs =
  Let_def gas_constants opcode_values state_defs machine_defs opcode_defs driver_defs

lemmas eval_congs = bind_exn_weak_cong let_weak_cong prod.case_cong_weak

lemmas example_defs =
  example_env_def empty_world_def sender_A_def funded_state_def underfunded_create_tx_def
  creation_tx_def contract_B_def caller_code_def storing_then_invalid_code_def call_world_def
  caller_message_def frame_at_call_def sha3_program_def sha3_message_def

section \<open>Byte \<open>0x5F\<close> (PUSH0) in the three forks\<close>





section \<open>Nested calls whose sub-frame fails\<close>

text \<open>
  Claim C1, as stated, at a concrete input. The caller (balance 10) is at its CALL with
  value 1 to a contract whose code writes 1 to its storage slot 0 and then executes
  INVALID. The sub-frame fails and the caller gets 0 pushed and goes on at \<open>pc + 1\<close>, but
  the state after the call is not the state at the point the sub-frame was entered: the
  value transfer and the storage write of the failed sub-frame are still there.
\<close>

theorem failed_call_state_not_restored:
  "\<forall>d.
    (case handle_call (execute (Suc d) 10 Frontier example_env) 15 frame_at_call
            (caller_message 100000) 99979 CALL (call_world storing_then_invalid_code) of
       Some (Inr (res, fr'), w') \<Rightarrow>
         or_pc res = 16 \<and> f_stack fr' = [0]
         \<and> get_balance (w_state w') sender_A = 9
         \<and> get_balance (w_state w') contract_B = 1
         \<and> get_storage (w_state w') contract_B 0 = 1
     | _ \<Rightarrow> False)
    \<and> get_balance (w_state (call_world storing_then_invalid_code)) sender_A = 10
    \<and> get_balance (w_state (call_world storing_then_invalid_code)) contract_B = 0
    \<and> get_storage (w_state (call_world storing_then_invalid_code)) contract_B 0 = 0"
  by (simp add: eval_defs example_defs cong: eval_congs)

text \<open>
  Claim C1, amended. Take any nested call (CALL, CALLCODE, DELEGATECALL, STATICCALL) that
  gets as far as invoking \<^verbatim>\<open>self.execute\<close>: \<open>m\<close> is the message of the sub-frame and \<open>w0\<close>
  the world it is entered in, which is the caller's world with the value of a
  value-bearing CALL already transferred. Let the sub-frame fail in any of the three ways
  \<^verbatim>\<open>execute\<close> has: the depth check, an exception caught by an \<^verbatim>\<open>except\<close> clause (out of
  gas, invalid opcode, stack error, bad jump, write protection, ...), or a halt with
  \<open>success = False\<close> (REVERT); \<open>w'\<close> is the world in which the loop of the sub-frame
  stopped, with every write the sub-frame made until then. Then nothing is rolled back:
  the world after the call is \<open>w'\<close> (with \<^verbatim>\<open>self.return_data\<close> overwritten). The caller
  observes a pushed 0 and continues at \<open>pc + 1\<close>, with the gas the sub-frame left added
  to what it had after the forwarded gas was subtracted.
\<close>

theorem failed_call_keeps_subframe_state:
  assumes prep: "call_prepare fr message gas_remaining ct w =
                   Inr (gas, address, val, args_offset, args_size, ret_offset, ret_size, st, g)"
      and room: "length st < 1024"
      and funds: "\<not> (ct = CALL \<and> val > 0 \<and> get_balance (w_state w) (msg_target message) < val)"
      and m: "m = call_message ct message (w_state w) address val
                    (fst (mem_load (f_memory fr) args_offset args_size))
                    (call_gas_to_forward ct val gas g)"
      and w0: "w0 = w\<lparr>w_state := call_entry_state ct message address val (w_state w)\<rparr>"
      and failed:
        "(MAX_CALL_DEPTH < msg_depth m \<and> w' = w0
            \<and> result = failed_result m CallDepthExceeded)
         \<or> (msg_depth m \<le> MAX_CALL_DEPTH
            \<and> (\<exists>e. run_loop (execute d n fk env) fk env m (find_jumpdests (msg_code m)) n 0
                       (msg_gas m) \<lparr>f_stack = [], f_memory = [], f_logs = []\<rparr> w0
                     = Some (Inl (Caught e), w')
                   \<and> result = failed_result m (FrameError e)))
         \<or> (msg_depth m \<le> MAX_CALL_DEPTH
            \<and> run_loop (execute d n fk env) fk env m (find_jumpdests (msg_code m)) n 0
                  (msg_gas m) \<lparr>f_stack = [], f_memory = [], f_logs = []\<rparr> w0
                = Some (Inr result, w')
            \<and> \<not> res_success result)"
  shows "\<exists>res fr'.
           handle_call (execute (Suc d) n fk env) pc fr message gas_remaining ct w
             = Some (Inr (res, fr'), w'\<lparr>w_return_data := res_return_data result\<rparr>)
           \<and> \<not> or_done res \<and> or_pc res = pc + 1
           \<and> or_gas_remaining res
               = g - call_gas_to_forward ct val gas g + res_gas_remaining result
           \<and> f_stack fr' = 0 # st"
proof -
  have enough:
    "(ct = CALL \<and> 0 < val \<and> get_balance (w_state w) (msg_target message) < val) = False"
    using funds by simp
  have sub: "execute (Suc d) n fk env m w0 = Some (Inr result, w')"
    and unsuccessful: "\<not> res_success result"
    using failed
    by (auto simp add: exec_frame_def failed_result_def ExecutionResult_default_def)
  show ?thesis
    using room unsuccessful sub [unfolded m w0]
    by (simp add: handle_call_def prep enough call_finish_def split_def Let_def
          stack_push_def continue_at_def MAX_DEPTH_def u256_def OpcodeResult_default_def
          del: execute.simps)
qed

theorem failed_call_keeps_subframe_state_witness:
  "\<exists>res fr' w2.
     handle_call (execute 2 10 Frontier example_env) 15 frame_at_call (caller_message 100000)
         99979 CALL (call_world storing_then_invalid_code)
       = Some (Inr (res, fr'), w2)
     \<and> or_pc res = 16 \<and> or_gas_remaining res = 23104 \<and> f_stack fr' = [0]
     \<and> get_balance (w_state w2) sender_A = 9
     \<and> get_balance (w_state w2) contract_B = 1
     \<and> get_storage (w_state w2) contract_B 0 = 1"
proof -
  let ?cw = "call_world storing_then_invalid_code"
  let ?m = "caller_message 100000"
  let ?cm = "call_message CALL ?m (w_state ?cw) contract_B 1
               (fst (mem_load (f_memory frame_at_call) 0 0))
               (call_gas_to_forward CALL 1 0xFFFF 90939)"
  let ?entry = "?cw\<lparr>w_state := call_entry_state CALL ?m contract_B 1 (w_state ?cw)\<rparr>"
  let ?result = "failed_result ?cm (FrameError InvalidOpcodeError)"
  have prep: "call_prepare frame_at_call ?m 99979 CALL ?cw
                = Inr (0xFFFF, contract_B, 1, 0, 0, 0, 0, [], 90939)"
    by (simp add: eval_defs example_defs cong: eval_congs)
  have room: "length ([] :: int list) < 1024"
    by simp
  have funds: "\<not> (CALL = CALL \<and> (1::int) > 0
                   \<and> get_balance (w_state ?cw) (msg_target ?m) < 1)"
    by (simp add: eval_defs example_defs cong: eval_congs)
  have depth: "msg_depth ?cm \<le> MAX_CALL_DEPTH"
    by (simp add: call_message_def caller_message_def MAX_CALL_DEPTH_def)
  have "\<exists>w'.
          run_loop (execute (Suc 0) 10 Frontier example_env) Frontier example_env ?cm
              (find_jumpdests (msg_code ?cm)) 10 0 (msg_gas ?cm)
              \<lparr>f_stack = [], f_memory = [], f_logs = []\<rparr> ?entry
            = Some (Inl (Caught InvalidOpcodeError), w')
          \<and> get_balance (w_state w') sender_A = 9
          \<and> get_balance (w_state w') contract_B = 1
          \<and> get_storage (w_state w') contract_B 0 = 1"
    by (simp add: eval_defs example_defs cong: eval_congs)
  then obtain w' where
    loop: "run_loop (execute (Suc 0) 10 Frontier example_env) Frontier example_env ?cm
              (find_jumpdests (msg_code ?cm)) 10 0 (msg_gas ?cm)
              \<lparr>f_stack = [], f_memory = [], f_logs = []\<rparr> ?entry
            = Some (Inl (Caught InvalidOpcodeError), w')"
    and obs: "get_balance (w_state w') sender_A = 9" "get_balance (w_state w') contract_B = 1"
             "get_storage (w_state w') contract_B 0 = 1"
    by blast
  have failed:
    "(MAX_CALL_DEPTH < msg_depth ?cm \<and> w' = ?entry
        \<and> ?result = failed_result ?cm CallDepthExceeded)
     \<or> (msg_depth ?cm \<le> MAX_CALL_DEPTH
        \<and> (\<exists>e. run_loop (execute (Suc 0) 10 Frontier example_env) Frontier example_env ?cm
                   (find_jumpdests (msg_code ?cm)) 10 0 (msg_gas ?cm)
                   \<lparr>f_stack = [], f_memory = [], f_logs = []\<rparr> ?entry
                 = Some (Inl (Caught e), w')
               \<and> ?result = failed_result ?cm (FrameError e)))
     \<or> (msg_depth ?cm \<le> MAX_CALL_DEPTH
        \<and> run_loop (execute (Suc 0) 10 Frontier example_env) Frontier example_env ?cm
              (find_jumpdests (msg_code ?cm)) 10 0 (msg_gas ?cm)
              \<lparr>f_stack = [], f_memory = [], f_logs = []\<rparr> ?entry
            = Some (Inr ?result, w')
        \<and> \<not> res_success ?result)"
    using depth loop by blast
  have two: "execute 2 10 Frontier example_env = execute (Suc (Suc 0)) 10 Frontier example_env"
    by (simp only: numeral_2_eq_2)
  from failed_call_keeps_subframe_state
         [where pc = 15 and d = "Suc 0" and n = 10 and fk = Frontier and env = example_env,
          OF prep room funds refl refl failed]
  obtain res fr' where
    call: "handle_call (execute (Suc (Suc 0)) 10 Frontier example_env) 15 frame_at_call ?m
               99979 CALL ?cw
             = Some (Inr (res, fr'), w'\<lparr>w_return_data := res_return_data ?result\<rparr>)"
    and res: "or_pc res = 15 + 1"
             "or_gas_remaining res
                = 90939 - call_gas_to_forward CALL 1 0xFFFF 90939 + res_gas_remaining ?result"
             "f_stack fr' = [0]"
    by blast
  have gas: "or_gas_remaining res = 23104"
    using res(2)
    by (simp add: call_gas_to_forward_def G_CALLSTIPEND_def failed_result_def
          ExecutionResult_default_def)
  show ?thesis
    unfolding two using call res(1,3) gas obs
    by (intro exI [of _ res] exI [of _ fr']
          exI [of _ "w'\<lparr>w_return_data := res_return_data ?result\<rparr>"] conjI) simp_all
qed

section \<open>The call stipend\<close>

text \<open>
  Claim C4, evaluated at a failing input. A frame with 9161 gas runs the caller code: the
  seven pushes cost 21, the CALL with value 1 costs 9040, which leaves 100. The gas hint
  is \<open>0xFFFF\<close>, so \<open>min(hint, 100 - 100 div 64) = 99\<close>, and the sub-frame gets
  \<open>99 + 2300\<close>; its only opcode is INVALID, which consumes all of it. The whole
  \<open>99 + 2300\<close> was subtracted from the caller, whose \<open>gas_remaining\<close> ends at \<open>- 2299\<close>
  instead of 1, and the frame reports more gas used than it was given. For CALLCODE with
  the same operands no stipend is added. This holds whenever the Python stack has room
  for the two frames.
\<close>

theorem call_stipend_is_charged_to_caller:
  "(case execute (Suc (Suc d)) 10 Frontier example_env (caller_message 9161)
          (call_world [0xFE]) of
      Some (Inr r, w) \<Rightarrow>
        r = \<lparr>res_success = True, res_gas_used = 11460, res_gas_remaining = - 2299,
             res_return_data = [], res_logs = [], res_error = None,
             res_created_address = None\<rparr>
    | _ \<Rightarrow> False)
   \<and> call_gas_to_forward CALL 1 0xFFFF 100 = 99 + 2300
   \<and> call_gas_to_forward CALLCODE 1 0xFFFF 100 = 99"
  by (simp add: eval_defs example_defs cong: eval_congs)

section \<open>Gas used by a transaction\<close>

text \<open>
  Claim C2, evaluated at a failing input: the creation of \<^verbatim>\<open>test_contract_creation\<close> under
  Frontier. The intrinsic gas is 53552, the init-code frame uses 18 and the deposit of
  the 32 returned bytes costs 6400, which is 59970; the driver reports
  \<open>gas_used = 113522\<close>, the intrinsic gas counted twice, above the gas limit 100000 of the
  transaction, and \<open>gas_remaining = - 13522\<close>.
\<close>

theorem creation_gas_used_exceeds_gas_limit:
  "\<exists>s r a. state_transition (Suc d) 10 Frontier funded_state creation_tx example_env
              = Some (Inr (s, r))
     \<and> res_success r \<and> res_gas_used r = 113522 \<and> res_gas_remaining r = - 13522
     \<and> res_gas_used r > tx_gas creation_tx
     \<and> create_address sender_A 0 = Inr a \<and> res_created_address r = Some a"
  by (simp add: eval_defs example_defs cong: eval_congs)

section \<open>Validation of creation transactions under Shanghai\<close>

text \<open>
  Claim C5, evaluated at a failing input: a creation transaction with the one-byte init
  code \<open>00\<close> and gas limit 53004, below the full intrinsic gas \<open>53000 + 4 + 2 * 1 = 53006\<close>.
  \<open>validate_transaction\<close> accepts it, because it compares the gas limit with the base
  intrinsic gas only; the transition then runs the init code with \<open>- 2\<close> gas, fails at
  the code deposit, reports \<open>gas_used = 53004\<close> and returns a state in which the sender
  has paid for the gas and has nonce 1.
\<close>

theorem shanghai_creation_below_full_intrinsic:
  "validate_transaction Shanghai underfunded_create_tx funded_state = None
   \<and> (\<exists>s r. state_transition (Suc d) 5 Shanghai funded_state underfunded_create_tx
                example_env
                = Some (Inr (s, r))
          \<and> \<not> res_success r \<and> res_gas_used r = 53004
          \<and> res_error r = Some OutOfGasForCodeDeployment
          \<and> acc_nonce (get_account s sender_A) = 1
          \<and> get_balance s sender_A = 10 ^ 18 - 53004)"
  by (simp add: eval_defs example_defs cong: eval_congs)

section \<open>The hash function of the SHA3 opcode\<close>

text \<open>
  Claim C3, evaluated at a failing input: the contract that hashes the empty byte string
  with the SHA3 opcode and returns the digest. The 32 bytes it returns are
  \<open>a7ffc6f8...f8434a\<close>, the FIPS-202 SHA3-256 of the empty string, which is what
  \<^verbatim>\<open>hashlib.sha3_256\<close> computes, and not \<open>c5d24601...85a470\<close>, its Keccak-256; the two
  differ in the domain suffix of the padding only (\<open>0x06\<close> against \<open>0x01\<close>).
\<close>

theorem sha3_opcode_is_fips_sha3_256:
  "(case execute (Suc d) 10 Frontier example_env sha3_message empty_world of
      Some (Inr r, w) \<Rightarrow>
        res_success r
        \<and> res_return_data r =
            [0xA7, 0xFF, 0xC6, 0xF8, 0xBF, 0x1E, 0xD7, 0x66,
             0x51, 0xC1, 0x47, 0x56, 0xA0, 0x61, 0xD6, 0x62,
             0xF5, 0x80, 0xFF, 0x4D, 0xE4, 0x3B, 0x49, 0xFA,
             0x82, 0xD8, 0x0A, 0x4B, 0x80, 0xF8, 0x43, 0x4A]
        \<and> res_return_data r = sha3_256 []
        \<and> res_return_data r \<noteq> keccak256 []
    | _ \<Rightarrow> False)
   \<and> keccak256 [] =
        [0xC5, 0xD2, 0x46, 0x01, 0x86, 0xF7, 0x23, 0x3C,
         0x92, 0x7E, 0x7D, 0xB2, 0xDC, 0xC7, 0x03, 0xC0,
         0xE5, 0x00, 0xB6, 0x53, 0xCA, 0x82, 0x27, 0x3B,
         0x7B, 0xFA, 0xD8, 0x04, 0x5D, 0x85, 0xA4, 0x70]"
  by (simp add: eval_defs example_defs sha3_256_empty keccak256_empty cong: eval_congs)

end
